theory Spec2Isabelle
  imports Complex_Main "HOL-Library.AList"
begin

section \<open>Values of the runtime\<close>

text \<open>
  A thrown value: an instance of \<^verbatim>\<open>Error\<close> with its message, or some other value.  The
  probes read it with \<^verbatim>\<open>error instanceof Error ? error.message : fallback\<close>.
\<close>

datatype exn = Error string | NonError

fun error_message :: "exn \<Rightarrow> string \<Rightarrow> string" where
  "error_message (Error m) fallback = m"
| "error_message NonError fallback = fallback"

text \<open>
  A \<^verbatim>\<open>Date\<close> is its time value in milliseconds since the epoch; \<open>None\<close> is the invalid
  date, whose time value is \<^verbatim>\<open>NaN\<close>.  Strings are lists of 8-bit characters.
\<close>

type_synonym Date = "int option"

definition digits :: string where
  "digits = ''0123456789''"

definition upper_letters :: string where
  "upper_letters = ''ABCDEFGHIJKLMNOPQRSTUVWXYZ''"

definition lower_letters :: string where
  "lower_letters = ''abcdefghijklmnopqrstuvwxyz''"

definition is_digit :: "char \<Rightarrow> bool" where
  "is_digit c = (c \<in> set digits)"

definition is_alpha :: "char \<Rightarrow> bool" where
  "is_alpha c = (c \<in> set upper_letters \<or> c \<in> set lower_letters)"

text \<open>
  The white space of \<^verbatim>\<open>\s\<close> and of \<^verbatim>\<open>trim\<close> among 8-bit characters: tab, line feed,
  vertical tab, form feed, carriage return, space and the no-break space.
\<close>

definition is_space :: "char \<Rightarrow> bool" where
  "is_space c = (c \<in> set [CHR 0x09, CHR 0x0A, CHR 0x0B, CHR 0x0C, CHR 0x0D, CHR 0x20, CHR 0xA0])"

definition is_line_terminator :: "char \<Rightarrow> bool" where
  "is_line_terminator c = (c = CHR 0x0A \<or> c = CHR 0x0D)"

definition toLowerCase_ascii :: "char \<Rightarrow> char" where
  "toLowerCase_ascii c =
     (case map_of (zip upper_letters lower_letters) c of Some d \<Rightarrow> d | None \<Rightarrow> c)"

definition digit_value :: "char \<Rightarrow> nat option" where
  "digit_value c = map_of (zip digits [0, 1, 2, 3, 4, 5, 6, 7, 8, 9]) c"

definition trim :: "string \<Rightarrow> string" where
  "trim s = rev (dropWhile is_space (rev (dropWhile is_space s)))"

text \<open>\<^verbatim>\<open>String(n)\<close> of an integer: its decimal digits, with a minus sign when negative.\<close>

fun nat_to_string :: "nat \<Rightarrow> string" where
  "nat_to_string n =
     (if n < 10 then [digits ! n] else nat_to_string (n div 10) @ [digits ! (n mod 10)])"

definition int_to_string :: "int \<Rightarrow> string" where
  "int_to_string i = (if i < 0 then CHR ''-'' # nat_to_string (nat (- i)) else nat_to_string (nat i))"


section \<open>Regular expressions of the source\<close>

text \<open>
  The regular expressions the source writes out are sequences of character classes under
  greedy bounded repetition, with an optional end anchor.  \<open>Rep c lo hi\<close> is a class
  \<open>c\<close> repeated at least \<open>lo\<close> times and at most \<open>hi\<close> times (\<open>None\<close>: unbounded).
  \<open>match_here\<close> matches a sequence at the head of a string the way a backtracking matcher
  does, longest repetition first, and returns how many characters each piece consumed;
  \<open>search\<close> finds the leftmost position where the sequence matches.
\<close>

datatype piece = Rep "char \<Rightarrow> bool" nat "nat option" | AtEnd

fun match_here :: "piece list \<Rightarrow> string \<Rightarrow> nat list option" where
  "match_here [] s = Some []"
| "match_here (AtEnd # ps) s =
     (if s = [] then map_option ((#) 0) (match_here ps s) else None)"
| "match_here (Rep c lo hi # ps) s =
     (let avail = length (takeWhile c s);
          most = (case hi of None \<Rightarrow> avail | Some h \<Rightarrow> min h avail)
      in case List.find (\<lambda>n. match_here ps (drop n s) \<noteq> None) (rev [lo..<Suc most]) of
           None \<Rightarrow> None
         | Some n \<Rightarrow> map_option ((#) n) (match_here ps (drop n s)))"

fun search :: "piece list \<Rightarrow> string \<Rightarrow> (nat \<times> nat list) option" where
  "search ps [] = map_option (Pair 0) (match_here ps [])"
| "search ps (x # xs) =
     (case match_here ps (x # xs) of
        Some ns \<Rightarrow> Some (0, ns)
      | None \<Rightarrow> map_option (\<lambda>(i, ns). (Suc i, ns)) (search ps xs))"

definition single :: "(char \<Rightarrow> bool) \<Rightarrow> piece" where
  "single c = Rep c 1 (Some 1)"

text \<open>A literal character under the \<^verbatim>\<open>i\<close> flag, and a literal word under it.\<close>

definition lit_i :: "char \<Rightarrow> piece" where
  "lit_i x = single (\<lambda>c. toLowerCase_ascii c = toLowerCase_ascii x)"

definition word_i :: "string \<Rightarrow> piece list" where
  "word_i w = map lit_i w"

definition substring :: "string \<Rightarrow> nat \<Rightarrow> nat \<Rightarrow> string" where
  "substring s i n = take n (drop i s)"


section \<open>Parsing dates\<close>

subsection \<open>The date constructor\<close>

text \<open>
  \<^verbatim>\<open>new Date(s)\<close> and \<^verbatim>\<open>Date.parse(s)\<close> belong to the runtime.  The language standard fixes
  their value on the date-time string format; \<open>iso_instant\<close> computes it for the forms
  \<^verbatim>\<open>YYYY-MM-DDTHH:mm:ssZ\<close> and \<^verbatim>\<open>YYYY-MM-DDTHH:mm:ss.sssZ\<close> with every field in range.
  On any other string the value is left to the implementation: it is the parameter
  \<open>other\<close> of \<open>Date_parse\<close>.
\<close>

definition number_of :: "string \<Rightarrow> nat option" where
  "number_of s =
     (if s \<noteq> [] \<and> list_all is_digit s
      then Some (foldl (\<lambda>acc c. 10 * acc + the (digit_value c)) 0 s) else None)"

definition DayFromYear :: "int \<Rightarrow> int" where
  "DayFromYear y =
     365 * (y - 1970) + (y - 1969) div 4 - (y - 1901) div 100 + (y - 1601) div 400"

definition leap_year :: "int \<Rightarrow> bool" where
  "leap_year y = (y mod 4 = 0 \<and> (y mod 100 \<noteq> 0 \<or> y mod 400 = 0))"

definition DaysInMonth :: "int \<Rightarrow> nat \<Rightarrow> nat" where
  "DaysInMonth y m =
     (if m = 2 then (if leap_year y then 29 else 28)
      else if m \<in> {4, 6, 9, 11} then 30 else 31)"

definition MakeDay :: "int \<Rightarrow> nat \<Rightarrow> nat \<Rightarrow> int" where
  "MakeDay y m d =
     DayFromYear y + int (sum_list (map (DaysInMonth y) [1..<m])) + int d - 1"

definition msPerDay :: int where
  "msPerDay = 1000 * 60 * 60 * 24"

definition iso_fields :: "string \<Rightarrow> (string \<times> string \<times> string \<times> string \<times> string \<times> string \<times> string) option" where
  "iso_fields s =
     (if length s = 20 \<and> s ! 4 = CHR ''-'' \<and> s ! 7 = CHR ''-'' \<and> s ! 10 = CHR ''T''
         \<and> s ! 13 = CHR '':'' \<and> s ! 16 = CHR '':'' \<and> s ! 19 = CHR ''Z''
      then Some (substring s 0 4, substring s 5 2, substring s 8 2, substring s 11 2,
                 substring s 14 2, substring s 17 2, ''000'')
      else if length s = 24 \<and> s ! 4 = CHR ''-'' \<and> s ! 7 = CHR ''-'' \<and> s ! 10 = CHR ''T''
         \<and> s ! 13 = CHR '':'' \<and> s ! 16 = CHR '':'' \<and> s ! 19 = CHR ''.'' \<and> s ! 23 = CHR ''Z''
      then Some (substring s 0 4, substring s 5 2, substring s 8 2, substring s 11 2,
                 substring s 14 2, substring s 17 2, substring s 20 3)
      else None)"

definition iso_instant :: "string \<Rightarrow> int option" where
  "iso_instant s =
     (case iso_fields s of
        None \<Rightarrow> None
      | Some (ys, ms, ds, hs, mins, ss, mss) \<Rightarrow>
          (case (number_of ys, number_of ms, number_of ds, number_of hs, number_of mins,
                 number_of ss, number_of mss) of
             (Some y, Some m, Some d, Some h, Some mi, Some sec, Some milli) \<Rightarrow>
               if 1 \<le> m \<and> m \<le> 12 \<and> 1 \<le> d \<and> d \<le> DaysInMonth (int y) m
                  \<and> h \<le> 23 \<and> mi \<le> 59 \<and> sec \<le> 59
               then Some (MakeDay (int y) m d * msPerDay
                          + int h * 3600000 + int mi * 60000 + int sec * 1000 + int milli)
               else None
           | _ \<Rightarrow> None))"

definition Date_parse :: "(string \<Rightarrow> int option) \<Rightarrow> string \<Rightarrow> Date" where
  "Date_parse other s = (case iso_instant s of Some t \<Rightarrow> Some t | None \<Rightarrow> other s)"

subsection \<open>parseDateString\<close>

text \<open>\<^verbatim>\<open>s.replace(/\s+GMT$/i, 'Z')\<close>: the leftmost match is replaced by \<^verbatim>\<open>Z\<close>.\<close>

definition trailing_GMT :: "piece list" where
  "trailing_GMT = Rep is_space 1 None # word_i ''GMT'' @ [AtEnd]"

definition replace_trailing_GMT :: "string \<Rightarrow> string" where
  "replace_trailing_GMT s =
     (case search trailing_GMT s of None \<Rightarrow> s | Some (i, ns) \<Rightarrow> take i s @ ''Z'')"

text \<open>\<^verbatim>\<open>/(\d{1,2})[-\/ ]([A-Za-z]{3,9})[-\/ ](\d{4})/\<close> with its three groups.\<close>

definition is_date_sep :: "char \<Rightarrow> bool" where
  "is_date_sep c = (c \<in> set ''-/ '')"

definition day_month_year :: "piece list" where
  "day_month_year =
     [Rep is_digit 1 (Some 2), single is_date_sep, Rep is_alpha 3 (Some 9), single is_date_sep,
      Rep is_digit 4 (Some 4)]"

definition match_day_month_year :: "string \<Rightarrow> (string \<times> string \<times> string) option" where
  "match_day_month_year s =
     (case search day_month_year s of
        Some (i, [n1, s1, n2, s2, n3]) \<Rightarrow>
          Some (substring s i n1, substring s (i + n1 + s1) n2,
                substring s (i + n1 + s1 + n2 + s2) n3)
      | _ \<Rightarrow> None)"

definition months :: "string \<Rightarrow> string option" where
  "months = map_of
     [(''jan'', ''01''), (''feb'', ''02''), (''mar'', ''03''), (''apr'', ''04''),
      (''may'', ''05''), (''jun'', ''06''), (''jul'', ''07''), (''aug'', ''08''),
      (''sep'', ''09''), (''oct'', ''10''), (''nov'', ''11''), (''dec'', ''12'')]"

definition padStart2 :: "string \<Rightarrow> string" where
  "padStart2 s = replicate (2 - length s) CHR ''0'' @ s"

definition dmy_iso :: "string \<Rightarrow> string option" where
  "dmy_iso s =
     (case match_day_month_year s of
        None \<Rightarrow> None
      | Some (m1, m2, m3) \<Rightarrow>
          (case months (map toLowerCase_ascii (take 3 m2)) of
             None \<Rightarrow> None
           | Some mm \<Rightarrow> Some (m3 @ ''-'' @ mm @ ''-'' @ padStart2 m1 @ ''T00:00:00Z'')))"

definition parseDateString :: "(string \<Rightarrow> int option) \<Rightarrow> string \<Rightarrow> Date" where
  "parseDateString other s0 =
     (if s0 = [] then None
      else let s = replace_trailing_GMT (trim s0) in
        case Date_parse other s of
          Some d \<Rightarrow> Some d
        | None \<Rightarrow>
            (case (case dmy_iso s of None \<Rightarrow> None | Some str \<Rightarrow> Date_parse other str) of
               Some d2 \<Rightarrow> Some d2
             | None \<Rightarrow> Date_parse other s))"


section \<open>The monitoring report\<close>

text \<open>
  The interface \<^verbatim>\<open>MonitoringResult\<close>.  An optional property is an \<open>option\<close>.  A date rendered
  by \<^verbatim>\<open>toISOString\<close> is kept as the instant it denotes.  The port table is the object keyed
  by port number, in the order the keys were first assigned.
\<close>

datatype website_status = Online | Offline | WebsiteError
datatype response_status = Good | Warning | Critical
datatype dns_status = Resolved | DnsFailed | DnsError
datatype ssl_status = SslValid | SslInvalid | SslExpired | SslExpiringSoon | SslError
datatype domain_status = DomainValid | DomainExpired | DomainExpiringSoon | DomainError
datatype port_status = PortOpen | PortClosed | PortTimeout | PortError
datatype ping_status = PingSuccess | PingFailed | PingError
datatype keyword_status = Found | NotFound | KeywordError

record WebsiteMonitoring =
  ws_status :: website_status
  ws_statusCode :: "nat option"
  ws_error :: "string option"

record ResponseTime =
  rt_value :: int
  rt_unit :: string
  rt_status :: response_status

record DnsRecords =
  dns_A :: "string list"
  dns_MX :: "string list"
  dns_TXT :: "string list"
  dns_NS :: "string list"

record DnsMonitoring =
  dns_status :: dns_status
  dns_records :: "DnsRecords option"
  dns_error :: "string option"

record Certificate =
  issuer :: string
  validFrom :: int
  validTo :: int
  daysUntilExpiry :: int

record SslMonitoring =
  ssl_status :: ssl_status
  ssl_certificate :: "Certificate option"
  ssl_error :: "string option"

record DomainExpiration =
  dom_status :: domain_status
  dom_expiryDate :: "int option"
  dom_daysUntilExpiry :: "int option"
  dom_error :: "string option"

record PortEntry =
  port_status :: port_status
  port_responseTime :: "int option"

record PingMonitoring =
  ping_status :: ping_status
  ping_responseTime :: "real option"
  ping_error :: "string option"

record KeywordMonitoring =
  kw_status :: keyword_status
  kw_keyword :: "string option"
  kw_occurrences :: "nat option"
  kw_error :: "string option"

record MonitoringResult =
  url :: string
  timestamp :: int
  websiteMonitoring :: WebsiteMonitoring
  responseTime :: ResponseTime
  dnsMonitoring :: DnsMonitoring
  sslMonitoring :: SslMonitoring
  domainExpiration :: DomainExpiration
  portMonitoring :: "(nat \<times> PortEntry) list"
  pingMonitoring :: PingMonitoring
  keywordMonitoring :: "KeywordMonitoring option"


section \<open>The world outside the process\<close>

text \<open>
  What the probes ask of the network, the operating system and the runtime, each as the
  answer it gives: a value, or the exception it throws or rejects with.
\<close>

record URL =
  hostname :: string
  port :: "nat option"

record Response =
  status :: nat
  statusText :: string
  body_text :: "exn + string"

text \<open>The getter \<^verbatim>\<open>ok\<close> of a fetch response: a status in the range 200 to 299.\<close>

definition ok :: "Response \<Rightarrow> bool" where
  "ok r = (200 \<le> status r \<and> status r < 300)"

record MxRecord =
  exchange :: string
  priority :: nat

record PeerCertificate =
  valid_from :: "string option"
  valid_to :: "string option"
  issuer_CN :: "string option"

text \<open>
  An entry of the \<^verbatim>\<open>events\<close> array of a registry answer: \<open>eventAction\<close> is \<open>None\<close> when the
  property is not a string; \<open>eventDate\<close> is \<open>None\<close> when the property is falsy, and else its
  rendering by \<^verbatim>\<open>String\<close>.
\<close>

record RdapEvent =
  eventAction :: "string option"
  eventDate :: "string option"

record RdapResponse =
  rdap_status :: nat
  rdap_events :: "RdapEvent list option"

text \<open>
  How a TCP connection attempt ends: the \<^verbatim>\<open>connect\<close> event, with the clock read before the
  attempt and at the event; the \<^verbatim>\<open>error\<close> event; the \<^verbatim>\<open>timeout\<close> event; or an exception
  while the socket is set up.
\<close>

datatype connect_outcome = Connected real real | Refused | TimedOut | SetupThrows

record World =
  URL_new :: "string \<Rightarrow> URL option"
  date_other :: "string \<Rightarrow> int option"
  regexp_other :: "string \<Rightarrow> string \<Rightarrow> exn + nat"
  now_report :: int
  fetch_status :: "string \<Rightarrow> exn + Response"
  perf_start :: real
  perf_end :: real
  resolve4 :: "string \<Rightarrow> exn + string list"
  resolveMx :: "string \<Rightarrow> exn + MxRecord list"
  resolveTxt :: "string \<Rightarrow> exn + string list list"
  resolveNs :: "string \<Rightarrow> exn + string list"
  tls_connect :: "string \<Rightarrow> nat \<Rightarrow> exn + PeerCertificate"
  now_ssl :: int
  psl_domain :: "string \<Rightarrow> string option"
  fetch_rdap :: "string \<Rightarrow> exn + RdapResponse"
  exec_whois :: "string \<Rightarrow> exn + string \<times> string"
  now_domain :: int
  net_connect :: "nat \<Rightarrow> string \<Rightarrow> connect_outcome"
  exec_ping :: "string \<Rightarrow> exn + string"
  fetch_keyword :: "string \<Rightarrow> exn + Response"

text \<open>\<^verbatim>\<open>new URL(url)\<close> throws a \<^verbatim>\<open>TypeError\<close> on a string that is no URL.\<close>

definition new_URL :: "World \<Rightarrow> string \<Rightarrow> exn + URL" where
  "new_URL w u = (case URL_new w u of None \<Rightarrow> Inl (Error ''Invalid URL'') | Some v \<Rightarrow> Inr v)"

definition new_Date :: "World \<Rightarrow> string option \<Rightarrow> Date" where
  "new_Date w s = (case s of None \<Rightarrow> None | Some str \<Rightarrow> Date_parse (date_other w) str)"

text \<open>\<^verbatim>\<open>try { body } catch (error) { handler }\<close>.\<close>

definition try_catch :: "exn + 'a \<Rightarrow> (exn \<Rightarrow> 'a) \<Rightarrow> 'a" where
  "try_catch body handler = (case body of Inl e \<Rightarrow> handler e | Inr v \<Rightarrow> v)"

text \<open>\<^verbatim>\<open>promise.catch(() => [])\<close>.\<close>

definition catch_empty :: "exn + 'a list \<Rightarrow> 'a list" where
  "catch_empty r = (case r of Inl e \<Rightarrow> [] | Inr xs \<Rightarrow> xs)"

text \<open>
  \<^verbatim>\<open>Math.round\<close>, and \<^verbatim>\<open>Math.ceil((expiry.getTime() - now.getTime()) / (1000 * 60 * 60 * 24))\<close>.
  The quotient is taken exactly: two time values differ by an integer, and for the time
  values a \<^verbatim>\<open>Date\<close> can hold the rounding of the division never reaches the next integer.
\<close>

definition Math_round :: "real \<Rightarrow> int" where
  "Math_round x = \<lfloor>x + 1 / 2\<rfloor>"

definition days_until :: "int \<Rightarrow> int \<Rightarrow> int" where
  "days_until expiry now = - ((now - expiry) div msPerDay)"


section \<open>The probes\<close>

subsection \<open>monitorWebsiteStatus\<close>

definition monitorWebsiteStatus :: "World \<Rightarrow> string \<Rightarrow> MonitoringResult \<Rightarrow> MonitoringResult" where
  "monitorWebsiteStatus w u result =
     try_catch
       (case fetch_status w u of
          Inl e \<Rightarrow> Inl e
        | Inr response \<Rightarrow>
            let elapsed = perf_end w - perf_start w in
            Inr (result
              \<lparr> websiteMonitoring :=
                  \<lparr> ws_status = (if ok response then Online else Offline),
                    ws_statusCode = Some (status response), ws_error = None \<rparr>,
                responseTime :=
                  \<lparr> rt_value = Math_round elapsed, rt_unit = ''ms'',
                    rt_status = (if elapsed < 1000 then Good
                                 else if elapsed < 3000 then Warning else Critical) \<rparr> \<rparr>))
       (\<lambda>e. result
          \<lparr> websiteMonitoring :=
              \<lparr> ws_status = WebsiteError, ws_statusCode = None,
                ws_error = Some (error_message e ''Unknown error'') \<rparr>,
            responseTime := \<lparr> rt_value = 0, rt_unit = ''ms'', rt_status = Critical \<rparr> \<rparr>)"

subsection \<open>monitorDNS\<close>

definition monitorDNS :: "World \<Rightarrow> string \<Rightarrow> MonitoringResult \<Rightarrow> MonitoringResult" where
  "monitorDNS w u result =
     try_catch
       (case new_URL w u of
          Inl e \<Rightarrow> Inl e
        | Inr parsed \<Rightarrow>
            let host = hostname parsed;
                aRecords = catch_empty (resolve4 w host);
                mxRecords = catch_empty (resolveMx w host);
                txtRecords = catch_empty (resolveTxt w host);
                nsRecords = catch_empty (resolveNs w host)
            in Inr (result
              \<lparr> dnsMonitoring :=
                  \<lparr> dns_status = Resolved,
                    dns_records = Some \<lparr> dns_A = aRecords, dns_MX = map exchange mxRecords,
                                         dns_TXT = concat txtRecords, dns_NS = nsRecords \<rparr>,
                    dns_error = None \<rparr> \<rparr>))
       (\<lambda>e. result
          \<lparr> dnsMonitoring :=
              \<lparr> dns_status = DnsError, dns_records = None,
                dns_error = Some (error_message e ''DNS resolution failed'') \<rparr> \<rparr>)"

subsection \<open>monitorSSL\<close>

text \<open>
  The classification both expiry checks write out:
  \<^verbatim>\<open>days > 0 ? (days > 30 ? 'valid' : 'expiring_soon') : 'expired'\<close>.
\<close>

definition ssl_status_of :: "int \<Rightarrow> ssl_status" where
  "ssl_status_of days = (if days > 0 then (if days > 30 then SslValid else SslExpiringSoon) else SslExpired)"

definition domain_status_of :: "int \<Rightarrow> domain_status" where
  "domain_status_of days =
     (if days > 0 then (if days > 30 then DomainValid else DomainExpiringSoon) else DomainExpired)"

text \<open>\<^verbatim>\<open>toISOString\<close> throws a \<^verbatim>\<open>RangeError\<close> on the invalid date.\<close>

definition toISOString :: "Date \<Rightarrow> exn + int" where
  "toISOString d = (case d of None \<Rightarrow> Inl (Error ''Invalid time value'') | Some t \<Rightarrow> Inr t)"

definition issuer_name :: "PeerCertificate \<Rightarrow> string" where
  "issuer_name c = (case issuer_CN c of None \<Rightarrow> ''Unknown'' | Some n \<Rightarrow> if n = [] then ''Unknown'' else n)"

text \<open>
  With an invalid \<open>validTo\<close> the day count is \<^verbatim>\<open>NaN\<close>; \<^verbatim>\<open>validTo.toISOString()\<close> then throws
  before the entry is assigned, so the count is only read on a valid date.
\<close>

definition monitorSSL :: "World \<Rightarrow> string \<Rightarrow> MonitoringResult \<Rightarrow> MonitoringResult" where
  "monitorSSL w u result =
     try_catch
       (case new_URL w u of
          Inl e \<Rightarrow> Inl e
        | Inr parsed \<Rightarrow>
            let host = hostname parsed;
                p = (case port parsed of None \<Rightarrow> 443 | Some n \<Rightarrow> n)
            in case tls_connect w host p of
                 Inl e \<Rightarrow> Inl e
               | Inr certificate \<Rightarrow>
                   let now = now_ssl w;
                       vFrom = new_Date w (valid_from certificate);
                       vTo = new_Date w (valid_to certificate)
                   in case toISOString vFrom of
                        Inl e \<Rightarrow> Inl e
                      | Inr fromIso \<Rightarrow>
                          (case toISOString vTo of
                             Inl e \<Rightarrow> Inl e
                           | Inr toIso \<Rightarrow>
                               let days = days_until toIso now in
                               Inr (result
                                 \<lparr> sslMonitoring :=
                                     \<lparr> ssl_status = ssl_status_of days,
                                       ssl_certificate =
                                         Some \<lparr> issuer = issuer_name certificate,
                                                validFrom = fromIso, validTo = toIso,
                                                daysUntilExpiry = days \<rparr>,
                                       ssl_error = None \<rparr> \<rparr>)))
       (\<lambda>e. result
          \<lparr> sslMonitoring :=
              \<lparr> ssl_status = SslError, ssl_certificate = None,
                ssl_error = Some (error_message e ''SSL check failed'') \<rparr> \<rparr>)"

subsection \<open>monitorDomainExpiration\<close>

fun split_on :: "char \<Rightarrow> string \<Rightarrow> string list" where
  "split_on c [] = [[]]"
| "split_on c (x # xs) =
     (if x = c then [] # split_on c xs
      else (case split_on c xs of [] \<Rightarrow> [[x]] | l # ls \<Rightarrow> (x # l) # ls))"

fun join :: "string \<Rightarrow> string list \<Rightarrow> string" where
  "join sep [] = []"
| "join sep [x] = x"
| "join sep (x # y # ys) = x @ sep @ join sep (y # ys)"

text \<open>\<^verbatim>\<open>text.split(/\r?\n/)\<close>: a carriage return right before a line feed belongs to the separator.\<close>

fun split_lines_from :: "string \<Rightarrow> string \<Rightarrow> string list" where
  "split_lines_from cur [] = [rev cur]"
| "split_lines_from cur (c # cs) =
     (if c = CHR 0x0A
      then rev (case cur of [] \<Rightarrow> [] | d # ds \<Rightarrow> if d = CHR 0x0D then ds else d # ds)
             # split_lines_from [] cs
      else split_lines_from (c # cur) cs)"

definition split_lines :: "string \<Rightarrow> string list" where
  "split_lines s = split_lines_from [] s"

definition test_i :: "string \<Rightarrow> string \<Rightarrow> bool" where
  "test_i w s = (search (word_i w) s \<noteq> None)"

text \<open>The registered domain: the public-suffix answer, or else the last two labels.\<close>

definition registered_domain :: "World \<Rightarrow> string \<Rightarrow> string" where
  "registered_domain w host =
     (case psl_domain w host of
        Some d \<Rightarrow> if d \<noteq> [] then d else (let parts = split_on CHR ''.'' host in join ''.'' (drop (length parts - 2) parts))
      | None \<Rightarrow> (let parts = split_on CHR ''.'' host in join ''.'' (drop (length parts - 2) parts)))"

text \<open>
  The registry lookup.  Any exception inside its block is caught there and leaves the expiry
  string unset.  \<^verbatim>\<open>/expir|expiration|expire/i.test(a)\<close> is the disjunction of three searches.
\<close>

definition is_expiry_event :: "RdapEvent \<Rightarrow> bool" where
  "is_expiry_event e =
     (case eventAction e of
        None \<Rightarrow> False
      | Some a \<Rightarrow> test_i ''expir'' a \<or> test_i ''expiration'' a \<or> test_i ''expire'' a)"

definition rdap_expiry :: "World \<Rightarrow> string \<Rightarrow> string option" where
  "rdap_expiry w domain =
     (case fetch_rdap w domain of
        Inl e \<Rightarrow> None
      | Inr rdapResp \<Rightarrow>
          if 200 \<le> rdap_status rdapResp \<and> rdap_status rdapResp < 300 then
            (case rdap_events rdapResp of
               None \<Rightarrow> None
             | Some events \<Rightarrow>
                 (case List.find is_expiry_event events of
                    None \<Rightarrow> None
                  | Some expEvent \<Rightarrow> map_option trim (eventDate expEvent)))
          else None)"

text \<open>The labelled patterns, each \<^verbatim>\<open>/Label:\s*(.+)/i\<close>, in the order of the source.\<close>

definition whois_labels :: "string list" where
  "whois_labels =
     [''Registry Expiry Date:'', ''Registrar Registration Expiration Date:'',
      ''Expiration Date:'', ''Expiry Date:'', ''paid-till:'', ''paid_till:'', ''Expires On:'',
      ''expires:'', ''Renewal Date:'', ''domain_datebilled_until:'', ''Registry Expiry:'']"

definition label_pattern :: "string \<Rightarrow> piece list" where
  "label_pattern l =
     word_i l @ [Rep is_space 0 None, Rep (\<lambda>c. \<not> is_line_terminator c) 1 None]"

definition match_label :: "string \<Rightarrow> string \<Rightarrow> string option" where
  "match_label l s =
     (case search (label_pattern l) s of
        None \<Rightarrow> None
      | Some (i, ns) \<Rightarrow> Some (substring s (i + sum_list (butlast ns)) (last ns)))"

text \<open>The loop over the patterns stops at the first that matches.\<close>

fun first_label :: "string list \<Rightarrow> string \<Rightarrow> string option" where
  "first_label [] s = None"
| "first_label (l # ls) s =
     (case match_label l s of Some g \<Rightarrow> Some (trim g) | None \<Rightarrow> first_label ls s)"

definition loose_expiry :: "string \<Rightarrow> string option" where
  "loose_expiry whoisText =
     (case List.find (\<lambda>line. test_i ''expir'' line \<or> test_i ''expire'' line
                              \<or> test_i ''expiry'' line \<or> test_i ''expires'' line)
             (split_lines whoisText) of
        None \<Rightarrow> None
      | Some loose \<Rightarrow>
          let parts = split_on CHR '':'' loose in
          if length parts > 1 then Some (trim (join '':'' (drop 1 parts))) else Some (trim loose))"

definition falsy :: "string option \<Rightarrow> bool" where
  "falsy s = (s = None \<or> s = Some [])"

text \<open>
  The search for the expiry string, registry first and the whois command after it:
  \<open>Inr (Inr s)\<close> is the string found, \<open>Inr (Inl text)\<close> the whois text in which none was
  found, \<open>Inl e\<close> the exception of the whois command.
\<close>

definition find_expiry :: "World \<Rightarrow> string \<Rightarrow> exn + (string + string)" where
  "find_expiry w domain =
     (let fromRdap = rdap_expiry w domain in
      if falsy fromRdap then
        (case exec_whois w domain of
           Inl e \<Rightarrow> Inl e
         | Inr (stdout, stderr) \<Rightarrow>
             let whoisText = stdout @ [CHR 0x0A] @ stderr;
                 labelled = first_label whois_labels whoisText;
                 expiryStr = (if falsy labelled then loose_expiry whoisText else labelled)
             in Inr (if falsy expiryStr then Inl whoisText else Inr (the expiryStr)))
      else Inr (Inr (the fromRdap)))"

definition monitorDomainExpiration :: "World \<Rightarrow> string \<Rightarrow> MonitoringResult \<Rightarrow> MonitoringResult" where
  "monitorDomainExpiration w u result =
     try_catch
       (case new_URL w u of
          Inl e \<Rightarrow> Inl e
        | Inr parsed \<Rightarrow>
            (case find_expiry w (registered_domain w (hostname parsed)) of
               Inl e \<Rightarrow> Inl e
             | Inr (Inl whoisText) \<Rightarrow>
                 Inr (result
                   \<lparr> domainExpiration :=
                       \<lparr> dom_status = DomainError, dom_expiryDate = None, dom_daysUntilExpiry = None,
                         dom_error = Some (''Could not find expiry date in RDAP or WHOIS output; sample WHOIS start: ''
                                           @ take 800 whoisText) \<rparr> \<rparr>)
             | Inr (Inr expiryStr) \<Rightarrow>
                 (case parseDateString (date_other w) expiryStr of
                    None \<Rightarrow>
                      Inr (result
                        \<lparr> domainExpiration :=
                            \<lparr> dom_status = DomainError, dom_expiryDate = None,
                              dom_daysUntilExpiry = None,
                              dom_error = Some (''Found expiry string but could not parse it: ''
                                                @ [CHR 0x22] @ expiryStr @ [CHR 0x22]) \<rparr> \<rparr>)
                  | Some expiryDate \<Rightarrow>
                      let days = days_until expiryDate (now_domain w) in
                      Inr (result
                        \<lparr> domainExpiration :=
                            \<lparr> dom_status = domain_status_of days, dom_expiryDate = Some expiryDate,
                              dom_daysUntilExpiry = Some days, dom_error = None \<rparr> \<rparr>))))
       (\<lambda>e. result
          \<lparr> domainExpiration :=
              \<lparr> dom_status = DomainError, dom_expiryDate = None, dom_daysUntilExpiry = None,
                dom_error = Some (error_message e ''Domain expiration check failed'') \<rparr> \<rparr>)"


subsection \<open>monitorPorts\<close>

definition ports :: "nat list" where
  "ports = [21, 22, 23, 25, 53, 80, 110, 143, 443, 993, 995, 3306, 5432, 8080]"

definition port_entry :: "connect_outcome \<Rightarrow> PortEntry" where
  "port_entry out =
     (case out of
        Connected startTime endTime \<Rightarrow>
          \<lparr> port_status = PortOpen, port_responseTime = Some (Math_round (endTime - startTime)) \<rparr>
      | Refused \<Rightarrow> \<lparr> port_status = PortClosed, port_responseTime = None \<rparr>
      | TimedOut \<Rightarrow> \<lparr> port_status = PortTimeout, port_responseTime = None \<rparr>
      | SetupThrows \<Rightarrow> \<lparr> port_status = PortError, port_responseTime = None \<rparr>)"

fun scan_ports :: "World \<Rightarrow> string \<Rightarrow> nat list \<Rightarrow> (nat \<times> PortEntry) list \<Rightarrow> (nat \<times> PortEntry) list" where
  "scan_ports w host [] table = table"
| "scan_ports w host (p # ps) table =
     scan_ports w host ps (AList.update p (port_entry (net_connect w p host)) table)"

text \<open>
  The URL is parsed before the loop and outside every \<^verbatim>\<open>try\<close>: its exception leaves the
  function.
\<close>

definition monitorPorts :: "World \<Rightarrow> string \<Rightarrow> MonitoringResult \<Rightarrow> exn + MonitoringResult" where
  "monitorPorts w u result =
     (case new_URL w u of
        Inl e \<Rightarrow> Inl e
      | Inr parsed \<Rightarrow>
          Inr (result \<lparr> portMonitoring := scan_ports w (hostname parsed) ports (portMonitoring result) \<rparr>))"

subsection \<open>monitorPing\<close>

text \<open>\<^verbatim>\<open>/time=(\d+\.\d+)/\<close>, and \<^verbatim>\<open>parseFloat\<close> of its group as the decimal it writes.\<close>

definition lit :: "char \<Rightarrow> piece" where
  "lit x = single (\<lambda>c. c = x)"

definition ping_time :: "piece list" where
  "ping_time = map lit ''time='' @ [Rep is_digit 1 None, lit CHR ''.'', Rep is_digit 1 None]"

definition match_ping_time :: "string \<Rightarrow> (string \<times> string) option" where
  "match_ping_time s =
     (case search ping_time s of
        Some (i, [t, i', m, e, eq, n1, dot, n2]) \<Rightarrow>
          Some (substring s (i + 5) n1, substring s (i + 5 + n1 + dot) n2)
      | _ \<Rightarrow> None)"

definition decimal :: "string \<Rightarrow> string \<Rightarrow> real" where
  "decimal whole fraction =
     real (the (number_of whole)) + real (the (number_of fraction)) / 10 ^ length fraction"

definition monitorPing :: "World \<Rightarrow> string \<Rightarrow> MonitoringResult \<Rightarrow> MonitoringResult" where
  "monitorPing w u result =
     try_catch
       (case new_URL w u of
          Inl e \<Rightarrow> Inl e
        | Inr parsed \<Rightarrow>
            (case exec_ping w (hostname parsed) of
               Inl e \<Rightarrow> Inl e
             | Inr stdout \<Rightarrow>
                 (case match_ping_time stdout of
                    Some (whole, fraction) \<Rightarrow>
                      Inr (result
                        \<lparr> pingMonitoring :=
                            \<lparr> ping_status = PingSuccess,
                              ping_responseTime = Some (decimal whole fraction), ping_error = None \<rparr> \<rparr>)
                  | None \<Rightarrow>
                      Inr (result
                        \<lparr> pingMonitoring :=
                            \<lparr> ping_status = PingFailed, ping_responseTime = None,
                              ping_error = None \<rparr> \<rparr>))))
       (\<lambda>e. result
          \<lparr> pingMonitoring :=
              \<lparr> ping_status = PingError, ping_responseTime = None,
                ping_error = Some (error_message e ''Ping failed'') \<rparr> \<rparr>)"

subsection \<open>monitorKeyword\<close>

text \<open>
  \<^verbatim>\<open>content.match(new RegExp(keyword, 'gi'))\<close>: the keyword is the source text of a pattern.
  A keyword of 7-bit characters none of which is a syntax character other than the dot is
  a sequence of literals and wildcards, and is matched here; on any other keyword the
  number of matches, or the \<^verbatim>\<open>SyntaxError\<close> of the constructor, is the parameter
  \<open>regexp_other\<close> of the world.
\<close>

definition syntax_characters_but_dot :: string where
  "syntax_characters_but_dot = [CHR 0x5C] @ ''^$*+?()[]{}|''"

definition literal_or_dot :: "string \<Rightarrow> bool" where
  "literal_or_dot k =
     list_all (\<lambda>c. of_char c < (128 :: nat) \<and> c \<notin> set syntax_characters_but_dot) k"

definition keyword_pattern :: "string \<Rightarrow> piece list" where
  "keyword_pattern k =
     map (\<lambda>c. if c = CHR ''.'' then single (\<lambda>x. \<not> is_line_terminator x) else lit_i c) k"

text \<open>
  The matches under the \<^verbatim>\<open>g\<close> flag: each search starts where the last match ended, one
  character further after an empty match.
\<close>

function count_matches :: "piece list \<Rightarrow> string \<Rightarrow> nat" where
  "count_matches ps s =
     (case search ps s of
        None \<Rightarrow> 0
      | Some (i, ns) \<Rightarrow>
          (if i + max 1 (sum_list ns) \<le> length s
           then Suc (count_matches ps (drop (i + max 1 (sum_list ns)) s))
           else 1))"
  by pat_completeness auto
termination
  by (relation "measure (\<lambda>(ps, s). length s)") auto

definition match_count_gi :: "World \<Rightarrow> string \<Rightarrow> string \<Rightarrow> exn + nat" where
  "match_count_gi w k content =
     (if literal_or_dot k then Inr (count_matches (keyword_pattern k) content)
      else regexp_other w k content)"

definition monitorKeyword :: "World \<Rightarrow> string \<Rightarrow> string \<Rightarrow> MonitoringResult \<Rightarrow> MonitoringResult" where
  "monitorKeyword w u k result =
     try_catch
       (case fetch_keyword w u of
          Inl e \<Rightarrow> Inl e
        | Inr response \<Rightarrow>
            if \<not> ok response then
              Inr (result
                \<lparr> keywordMonitoring :=
                    Some \<lparr> kw_status = KeywordError, kw_keyword = None, kw_occurrences = None,
                           kw_error = Some (''HTTP '' @ nat_to_string (status response) @ '': ''
                                            @ statusText response) \<rparr> \<rparr>)
            else
              (case body_text response of
                 Inl e \<Rightarrow> Inl e
               | Inr content \<Rightarrow>
                   (case match_count_gi w k content of
                      Inl e \<Rightarrow> Inl e
                    | Inr occurrences \<Rightarrow>
                        Inr (result
                          \<lparr> keywordMonitoring :=
                              Some \<lparr> kw_status = (if occurrences > 0 then Found else NotFound),
                                     kw_keyword = Some k, kw_occurrences = Some occurrences,
                                     kw_error = None \<rparr> \<rparr>))))
       (\<lambda>e. result
          \<lparr> keywordMonitoring :=
              Some \<lparr> kw_status = KeywordError, kw_keyword = None, kw_occurrences = None,
                     kw_error = Some (error_message e ''Keyword monitoring failed'') \<rparr> \<rparr>)"


section \<open>monitorWebsite\<close>

definition initial_result :: "World \<Rightarrow> string \<Rightarrow> MonitoringResult" where
  "initial_result w u =
     \<lparr> url = u, timestamp = now_report w,
       websiteMonitoring = \<lparr> ws_status = WebsiteError, ws_statusCode = None, ws_error = None \<rparr>,
       responseTime = \<lparr> rt_value = 0, rt_unit = ''ms'', rt_status = Critical \<rparr>,
       dnsMonitoring = \<lparr> dns_status = DnsError, dns_records = None, dns_error = None \<rparr>,
       sslMonitoring = \<lparr> ssl_status = SslError, ssl_certificate = None, ssl_error = None \<rparr>,
       domainExpiration = \<lparr> dom_status = DomainError, dom_expiryDate = None,
                            dom_daysUntilExpiry = None, dom_error = None \<rparr>,
       portMonitoring = [],
       pingMonitoring = \<lparr> ping_status = PingError, ping_responseTime = None, ping_error = None \<rparr>,
       keywordMonitoring = None \<rparr>"

text \<open>
  The probes run one after the other on the same report.  \<^verbatim>\<open>if (keyword)\<close> holds for a
  keyword that is given and not the empty string.
\<close>

definition monitorWebsite :: "World \<Rightarrow> string \<Rightarrow> string option \<Rightarrow> exn + MonitoringResult" where
  "monitorWebsite w u keyword =
     (let r1 = monitorWebsiteStatus w u (initial_result w u);
          r2 = monitorDNS w u r1;
          r3 = monitorSSL w u r2;
          r4 = monitorDomainExpiration w u r3
      in case monitorPorts w u r4 of
           Inl e \<Rightarrow> Inl e
         | Inr r5 \<Rightarrow>
             let r6 = monitorPing w u r5
             in Inr (if falsy keyword then r6 else monitorKeyword w u (the keyword) r6))"


text \<open>The report as the four probes before the port scan leave it.\<close>

definition before_ports :: "World \<Rightarrow> string \<Rightarrow> MonitoringResult" where
  "before_ports w u =
     monitorDomainExpiration w u (monitorSSL w u (monitorDNS w u
       (monitorWebsiteStatus w u (initial_result w u))))"


section \<open>The scheduler\<close>

subsection \<open>Jobs\<close>

text \<open>
  The configuration arrives in a request body and is cast to \<^verbatim>\<open>MonitoringConfig\<close> unchecked,
  so a threshold may be missing at run time: each is an \<open>option\<close>.
\<close>

record Smtp =
  smtp_host :: string
  smtp_port :: nat
  smtp_secure :: bool
  smtp_user :: string
  smtp_pass :: string

record EmailNotifications =
  enabled :: bool
  recipients :: "string list"
  smtp :: Smtp

record AlertThresholds =
  th_responseTime :: "int option"
  sslExpiryDays :: "int option"
  domainExpiryDays :: "int option"

record MonitoringConfig =
  cfg_url :: string
  cfg_keyword :: "string option"
  schedule :: string
  emailNotifications :: "EmailNotifications option"
  alertThresholds :: "AlertThresholds option"

record MonitoringJob =
  job_id :: string
  config :: MonitoringConfig
  lastRun :: "int option"
  lastResult :: "MonitoringResult option"
  isActive :: bool

subsection \<open>checkAlerts\<close>

text \<open>A number in a condition holds when it is present and not zero.\<close>

definition truthy :: "int option \<Rightarrow> bool" where
  "truthy x = (x \<noteq> None \<and> x \<noteq> Some 0)"

definition threshold :: "MonitoringConfig \<Rightarrow> (AlertThresholds \<Rightarrow> int option) \<Rightarrow> int option" where
  "threshold cfg field = (case alertThresholds cfg of None \<Rightarrow> None | Some th \<Rightarrow> field th)"

definition website_status_name :: "website_status \<Rightarrow> string" where
  "website_status_name st =
     (case st of Online \<Rightarrow> ''online'' | Offline \<Rightarrow> ''offline'' | WebsiteError \<Rightarrow> ''error'')"

definition response_time_alert :: "int \<Rightarrow> int \<Rightarrow> string" where
  "response_time_alert v t =
     ''Response time '' @ int_to_string v @ ''ms exceeds threshold of '' @ int_to_string t @ ''ms''"

definition ssl_days_alert :: "int \<Rightarrow> string" where
  "ssl_days_alert d = ''SSL certificate expires in '' @ int_to_string d @ '' days''"

definition domain_days_alert :: "int \<Rightarrow> string" where
  "domain_days_alert d = ''Domain expires in '' @ int_to_string d @ '' days''"

definition website_alert :: "website_status \<Rightarrow> string" where
  "website_alert st = ''Website is '' @ website_status_name st"

definition ssl_days :: "MonitoringResult \<Rightarrow> int option" where
  "ssl_days result = map_option daysUntilExpiry (ssl_certificate (sslMonitoring result))"

text \<open>The array \<^verbatim>\<open>alerts\<close> after the six conditions, each pushing at the end.\<close>

definition alerts_of :: "MonitoringConfig \<Rightarrow> MonitoringResult \<Rightarrow> string list" where
  "alerts_of cfg result =
     (if truthy (threshold cfg th_responseTime)
          \<and> rt_value (responseTime result) > the (threshold cfg th_responseTime)
      then [response_time_alert (rt_value (responseTime result)) (the (threshold cfg th_responseTime))]
      else [])
     @ (if truthy (threshold cfg sslExpiryDays) \<and> truthy (ssl_days result)
           \<and> the (ssl_days result) \<le> the (threshold cfg sslExpiryDays)
        then [ssl_days_alert (the (ssl_days result))] else [])
     @ (if truthy (threshold cfg domainExpiryDays)
           \<and> truthy (dom_daysUntilExpiry (domainExpiration result))
           \<and> the (dom_daysUntilExpiry (domainExpiration result)) \<le> the (threshold cfg domainExpiryDays)
        then [domain_days_alert (the (dom_daysUntilExpiry (domainExpiration result)))] else [])
     @ (if ws_status (websiteMonitoring result) \<noteq> Online
        then [website_alert (ws_status (websiteMonitoring result))] else [])
     @ (if ssl_status (sslMonitoring result) = SslExpired then [''SSL certificate has expired''] else [])
     @ (if dom_status (domainExpiration result) = DomainExpired then [''Domain has expired''] else [])"

text \<open>
  \<^verbatim>\<open>sendAlertEmail\<close> hands a message to the mail transport and swallows its failure; the
  message is kept with the alerts it lists.
\<close>

record Mail =
  mail_from :: string
  mail_to :: string
  mail_subject :: string
  mail_alerts :: "string list"

definition sendAlertEmail :: "MonitoringJob \<Rightarrow> MonitoringResult \<Rightarrow> string list \<Rightarrow> Mail" where
  "sendAlertEmail job result alerts =
     (let n = the (emailNotifications (config job)) in
      \<lparr> mail_from = smtp_user (smtp n), mail_to = join '', '' (recipients n),
        mail_subject = ''Website Monitoring Alert - '' @ url result, mail_alerts = alerts \<rparr>)"

text \<open>The messages \<^verbatim>\<open>checkAlerts\<close> sends: none or one.\<close>

definition checkAlerts :: "MonitoringJob \<Rightarrow> MonitoringResult \<Rightarrow> Mail list" where
  "checkAlerts job result =
     (case emailNotifications (config job) of
        None \<Rightarrow> []
      | Some n \<Rightarrow>
          if \<not> enabled n then []
          else let alerts = alerts_of (config job) result in
               if length alerts > 0 then [sendAlertEmail job result alerts] else [])"

definition notifications_on :: "MonitoringJob \<Rightarrow> bool" where
  "notifications_on job =
     (case emailNotifications (config job) of None \<Rightarrow> False | Some n \<Rightarrow> enabled n)"

subsection \<open>The registry and its executions\<close>

text \<open>
  Job objects live in \<open>heap\<close> and are named by their index: the registry \<open>jobs\<close> and the
  callback of a cron task both hold a reference to the object, not a copy.  \<open>tasks\<close> are the
  tasks registered with \<^verbatim>\<open>cron.schedule\<close>, each with its expression and the job its callback
  captured; the source keeps no handle on a task and never stops one.  \<open>running\<close> are the
  calls of \<^verbatim>\<open>runJob\<close> that have started and wait for \<^verbatim>\<open>monitorWebsite\<close>: between the call and
  its return other callbacks of the process run.  \<open>mails\<close> are the messages sent.
\<close>

record ScheduledMonitor =
  heap :: "MonitoringJob list"
  jobs :: "(string \<times> nat) list"
  tasks :: "(string \<times> nat) list"
  running :: "nat list"
  mails :: "Mail list"

definition empty_monitor :: ScheduledMonitor where
  "empty_monitor = \<lparr> heap = [], jobs = [], tasks = [], running = [], mails = [] \<rparr>"

text \<open>
  \<^verbatim>\<open>cron.schedule\<close> rejects an expression it cannot read by throwing; which expressions it
  reads is the parameter \<open>valid\<close>.  The registry entry is set before the task is created.
\<close>

definition addJob :: "(string \<Rightarrow> bool) \<Rightarrow> string \<Rightarrow> MonitoringConfig \<Rightarrow> ScheduledMonitor
    \<Rightarrow> exn option \<times> ScheduledMonitor" where
  "addJob valid i cfg s =
     (let ref = length (heap s);
          job = \<lparr> job_id = i, config = cfg, lastRun = None, lastResult = None, isActive = True \<rparr>;
          s1 = s \<lparr> heap := heap s @ [job], jobs := AList.update i ref (jobs s) \<rparr>
      in if valid (schedule cfg)
         then (None, s1 \<lparr> tasks := tasks s1 @ [(schedule cfg, ref)] \<rparr>)
         else (Some (Error (schedule cfg @ '' is a invalid expression'')), s1))"

definition removeJob :: "string \<Rightarrow> ScheduledMonitor \<Rightarrow> ScheduledMonitor" where
  "removeJob i s =
     (case map_of (jobs s) i of
        None \<Rightarrow> s
      | Some ref \<Rightarrow>
          s \<lparr> heap := (heap s)[ref := (heap s ! ref) \<lparr> isActive := False \<rparr>],
              jobs := AList.delete i (jobs s) \<rparr>)"


definition getAllJobs :: "ScheduledMonitor \<Rightarrow> MonitoringJob list" where
  "getAllJobs s = map (\<lambda>(i, ref). heap s ! ref) (jobs s)"

definition updateJobConfig :: "(string \<Rightarrow> bool) \<Rightarrow> string \<Rightarrow> MonitoringConfig \<Rightarrow> ScheduledMonitor
    \<Rightarrow> exn option \<times> ScheduledMonitor" where
  "updateJobConfig valid i cfg s =
     (case map_of (jobs s) i of
        None \<Rightarrow> (None, s)
      | Some ref \<Rightarrow>
          addJob valid i cfg (s \<lparr> heap := (heap s)[ref := (heap s ! ref) \<lparr> isActive := False \<rparr>] \<rparr>))"

text \<open>
  A call of \<^verbatim>\<open>runJob\<close> in two parts: it starts, and later \<^verbatim>\<open>monitorWebsite\<close> settles and the
  rest of the body runs in one piece.  \<open>w\<close> is the world the probes of this execution met
  and \<open>now\<close> the clock when it resumed.
\<close>

definition start_run :: "nat \<Rightarrow> ScheduledMonitor \<Rightarrow> ScheduledMonitor" where
  "start_run ref s = s \<lparr> running := running s @ [ref] \<rparr>"

definition finish_run :: "World \<Rightarrow> int \<Rightarrow> nat \<Rightarrow> ScheduledMonitor
    \<Rightarrow> (exn + MonitoringResult) \<times> ScheduledMonitor" where
  "finish_run w now k s =
     (let ref = running s ! k;
          job = heap s ! ref;
          s1 = s \<lparr> running := take k (running s) @ drop (Suc k) (running s) \<rparr>
      in case monitorWebsite w (cfg_url (config job)) (cfg_keyword (config job)) of
           Inl e \<Rightarrow> (Inl e, s1)
         | Inr result \<Rightarrow>
             let job1 = job \<lparr> lastRun := Some now, lastResult := Some result \<rparr>
             in (Inr result,
                 s1 \<lparr> heap := (heap s1)[ref := job1], mails := mails s1 @ checkAlerts job1 result \<rparr>))"

text \<open>A call of \<^verbatim>\<open>runJob\<close> that nothing interleaves with.\<close>

definition runJob :: "World \<Rightarrow> int \<Rightarrow> nat \<Rightarrow> ScheduledMonitor
    \<Rightarrow> (exn + MonitoringResult) \<times> ScheduledMonitor" where
  "runJob w now ref s = finish_run w now (length (running s)) (start_run ref s)"

text \<open>The callback of the cron task \<open>k\<close> fires, and \<^verbatim>\<open>runJobNow\<close> is called: each up to its first wait.\<close>

definition tick :: "nat \<Rightarrow> ScheduledMonitor \<Rightarrow> ScheduledMonitor" where
  "tick k s =
     (if k < length (tasks s) \<and> isActive (heap s ! snd (tasks s ! k))
      then start_run (snd (tasks s ! k)) s else s)"

definition runJobNow_start :: "string \<Rightarrow> ScheduledMonitor \<Rightarrow> ScheduledMonitor" where
  "runJobNow_start i s =
     (case map_of (jobs s) i of
        None \<Rightarrow> s
      | Some ref \<Rightarrow> if \<not> isActive (heap s ! ref) then s else start_run ref s)"

text \<open>\<^verbatim>\<open>runJobNow\<close> from call to return, uninterrupted: \<open>None\<close> is the \<^verbatim>\<open>null\<close> it returns.\<close>

definition runJobNow :: "World \<Rightarrow> int \<Rightarrow> string \<Rightarrow> ScheduledMonitor
    \<Rightarrow> (exn + MonitoringResult) option \<times> ScheduledMonitor" where
  "runJobNow w now i s =
     (case map_of (jobs s) i of
        None \<Rightarrow> (None, s)
      | Some ref \<Rightarrow>
          if \<not> isActive (heap s ! ref) then (None, s)
          else (case runJob w now ref s of (out, s1) \<Rightarrow> (Some out, s1)))"

text \<open>What happens in the process, one callback at a time.\<close>

datatype event =
    AddJob string MonitoringConfig
  | RemoveJob string
  | UpdateJobConfig string MonitoringConfig
  | Tick nat
  | RunJobNow string
  | Settle nat World int

fun step :: "(string \<Rightarrow> bool) \<Rightarrow> ScheduledMonitor \<Rightarrow> event \<Rightarrow> ScheduledMonitor" where
  "step valid s (AddJob i cfg) = snd (addJob valid i cfg s)"
| "step valid s (RemoveJob i) = removeJob i s"
| "step valid s (UpdateJobConfig i cfg) = snd (updateJobConfig valid i cfg s)"
| "step valid s (Tick k) = tick k s"
| "step valid s (RunJobNow i) = runJobNow_start i s"
| "step valid s (Settle k w now) = (if k < length (running s) then snd (finish_run w now k s) else s)"

definition run_events :: "(string \<Rightarrow> bool) \<Rightarrow> ScheduledMonitor \<Rightarrow> event list \<Rightarrow> ScheduledMonitor" where
  "run_events valid s es = foldl (step valid) s es"

text \<open>The executions of the job \<open>i\<close> in flight, and the cron tasks that still fire for it.\<close>

definition in_flight :: "ScheduledMonitor \<Rightarrow> string \<Rightarrow> nat" where
  "in_flight s i = length (filter (\<lambda>ref. job_id (heap s ! ref) = i) (running s))"



section \<open>The alert rules as the specification words them\<close>

text \<open>
  The rules of the specification, on the report and the optional thresholds alone: a
  threshold or a day count takes part when it is present.
\<close>

definition configured :: "AlertThresholds option \<Rightarrow> (AlertThresholds \<Rightarrow> int option) \<Rightarrow> int option" where
  "configured ths field = (case ths of None \<Rightarrow> None | Some th \<Rightarrow> field th)"

definition spec_alerts :: "AlertThresholds option \<Rightarrow> MonitoringResult \<Rightarrow> string list" where
  "spec_alerts ths result =
     (case configured ths th_responseTime of
        Some m \<Rightarrow> if rt_value (responseTime result) > m
                  then [response_time_alert (rt_value (responseTime result)) m] else []
      | None \<Rightarrow> [])
     @ (case (configured ths sslExpiryDays, ssl_days result) of
          (Some m, Some d) \<Rightarrow> if d \<le> m then [ssl_days_alert d] else []
        | _ \<Rightarrow> [])
     @ (case (configured ths domainExpiryDays, dom_daysUntilExpiry (domainExpiration result)) of
          (Some m, Some d) \<Rightarrow> if d \<le> m then [domain_days_alert d] else []
        | _ \<Rightarrow> [])
     @ (if ws_status (websiteMonitoring result) \<noteq> Online
        then [website_alert (ws_status (websiteMonitoring result))] else [])
     @ (if ssl_status (sslMonitoring result) = SslExpired then [''SSL certificate has expired''] else [])
     @ (if dom_status (domainExpiration result) = DomainExpired then [''Domain has expired''] else [])"


section \<open>Concrete worlds and jobs\<close>

text \<open>A world in which nothing answers and no string is a URL.\<close>

definition world_down :: World where
  "world_down =
     \<lparr> URL_new = (\<lambda>u. None), date_other = (\<lambda>s. None),
       regexp_other = (\<lambda>k c. Inl (Error ''Invalid regular expression'')),
       now_report = 1752969600000,
       fetch_status = (\<lambda>u. Inl (Error ''Only absolute URLs are supported'')),
       perf_start = 0, perf_end = 0,
       resolve4 = (\<lambda>h. Inl (Error ''queryA ENOTFOUND'')),
       resolveMx = (\<lambda>h. Inl (Error ''queryMx ENOTFOUND'')),
       resolveTxt = (\<lambda>h. Inl (Error ''queryTxt ENOTFOUND'')),
       resolveNs = (\<lambda>h. Inl (Error ''queryNs ENOTFOUND'')),
       tls_connect = (\<lambda>h p. Inl (Error ''getaddrinfo ENOTFOUND'')),
       now_ssl = 1752969600000,
       psl_domain = (\<lambda>h. None),
       fetch_rdap = (\<lambda>d. Inl (Error ''request failed'')),
       exec_whois = (\<lambda>d. Inl (Error ''Command failed: whois'')),
       now_domain = 1752969600000,
       net_connect = (\<lambda>p h. Refused),
       exec_ping = (\<lambda>h. Inl (Error ''Command failed: ping'')),
       fetch_keyword = (\<lambda>u. Inl (Error ''Only absolute URLs are supported'')) \<rparr>"

text \<open>The target parses as a URL and its host does not answer.\<close>

definition world_offline :: World where
  "world_offline = world_down
     \<lparr> URL_new := (\<lambda>u. Some \<lparr> hostname = ''example.com'', port = None \<rparr>),
       fetch_status := (\<lambda>u. Inl (Error ''connect ECONNREFUSED'')),
       fetch_keyword := (\<lambda>u. Inl (Error ''connect ECONNREFUSED'')) \<rparr>"

text \<open>
  On 2025-07-20 the host answers 200 in 150.4 ms, its certificate runs for 200 more days,
  its registration for 10, port 443 is open and the ping takes 12.5 ms.
\<close>

definition world_up :: World where
  "world_up = world_down
     \<lparr> URL_new := (\<lambda>u. Some \<lparr> hostname = ''example.com'', port = None \<rparr>),
       fetch_status :=
         (\<lambda>u. Inr \<lparr> status = 200, statusText = ''OK'', body_text = Inr ''price 125'' \<rparr>),
       perf_start := 1000, perf_end := 11504 / 10,
       tls_connect :=
         (\<lambda>h p. Inr \<lparr> valid_from = Some ''2025-01-01T00:00:00Z'',
                       valid_to = Some ''2026-02-05T00:00:00Z'', issuer_CN = Some ''R3'' \<rparr>),
       fetch_rdap :=
         (\<lambda>d. Inr \<lparr> rdap_status = 200,
                     rdap_events =
                       Some [\<lparr> eventAction = Some ''registration'',
                               eventDate = Some ''1995-08-14T04:00:00Z'' \<rparr>,
                             \<lparr> eventAction = Some ''expiration'',
                               eventDate = Some ''2025-07-30T00:00:00Z'' \<rparr>] \<rparr>),
       net_connect := (\<lambda>p h. if p = 443 then Connected 5 (35 / 2) else Refused),
       exec_ping := (\<lambda>h. Inr ''64 bytes from 93.184.216.34: icmp_seq=1 ttl=55 time=12.5 ms''),
       fetch_keyword :=
         (\<lambda>u. Inr \<lparr> status = 200, statusText = ''OK'', body_text = Inr ''price 125'' \<rparr>) \<rparr>"

text \<open>The same host with a certificate that runs for exactly 30 days and a registration that ends now.\<close>

definition world_boundary :: World where
  "world_boundary = world_up
     \<lparr> tls_connect :=
         (\<lambda>h p. Inr \<lparr> valid_from = Some ''2025-01-01T00:00:00Z'',
                       valid_to = Some ''2025-08-19T00:00:00Z'', issuer_CN = Some ''R3'' \<rparr>),
       fetch_rdap :=
         (\<lambda>d. Inr \<lparr> rdap_status = 200,
                     rdap_events =
                       Some [\<lparr> eventAction = Some ''expiration'',
                               eventDate = Some ''2025-07-20T00:00:00Z'' \<rparr>] \<rparr>) \<rparr>"

text \<open>
  The same host with a certificate that carries no dates, a registry and a whois answer
  that name no expiry, and a page that is not found when the keyword is looked for.
\<close>

definition world_degraded :: World where
  "world_degraded = world_up
     \<lparr> tls_connect := (\<lambda>h p. Inr \<lparr> valid_from = None, valid_to = None, issuer_CN = None \<rparr>),
       fetch_rdap := (\<lambda>d. Inr \<lparr> rdap_status = 200, rdap_events = Some [] \<rparr>),
       exec_whois := (\<lambda>d. Inr (''No match for domain'', [])),
       fetch_keyword :=
         (\<lambda>u. Inr \<lparr> status = 404, statusText = ''Not Found'', body_text = Inr ''price 125'' \<rparr>) \<rparr>"

text \<open>The same host answering 304.\<close>

definition world_not_modified :: World where
  "world_not_modified = world_up
     \<lparr> fetch_status :=
         (\<lambda>u. Inr \<lparr> status = 304, statusText = ''Not Modified'', body_text = Inr [] \<rparr>) \<rparr>"

definition target :: string where
  "target = ''https://example.com''"

definition report_of :: "World \<Rightarrow> string option \<Rightarrow> MonitoringResult" where
  "report_of w keyword =
     (case monitorWebsite w target keyword of Inr r \<Rightarrow> r | Inl e \<Rightarrow> initial_result w target)"

text \<open>A runtime whose date parser reads the modelled date-time string format and nothing else.\<close>

definition strict_runtime :: "string \<Rightarrow> int option" where
  "strict_runtime s = None"

definition any_expression :: "string \<Rightarrow> bool" where
  "any_expression e = True"

definition mailbox :: EmailNotifications where
  "mailbox =
     \<lparr> enabled = True, recipients = [''admin@example.com''],
       smtp = \<lparr> smtp_host = ''smtp.example.com'', smtp_port = 587, smtp_secure = False,
                smtp_user = ''monitor@example.com'', smtp_pass = ''secret'' \<rparr> \<rparr>"

definition config_alerting :: MonitoringConfig where
  "config_alerting =
     \<lparr> cfg_url = target, cfg_keyword = None, schedule = ''*/5 * * * *'',
       emailNotifications = Some mailbox,
       alertThresholds = Some \<lparr> th_responseTime = Some 3000, sslExpiryDays = Some 30,
                                domainExpiryDays = Some 30 \<rparr> \<rparr>"

definition config_quiet :: MonitoringConfig where
  "config_quiet = config_alerting \<lparr> emailNotifications := None \<rparr>"


definition config_no_url :: MonitoringConfig where
  "config_no_url = config_alerting \<lparr> cfg_url := ''not a url'' \<rparr>"

definition job_of :: "MonitoringConfig \<Rightarrow> MonitoringJob" where
  "job_of cfg = \<lparr> job_id = ''job_1'', config = cfg, lastRun = None, lastResult = None, isActive = True \<rparr>"

definition registered :: "MonitoringConfig \<Rightarrow> ScheduledMonitor" where
  "registered cfg = snd (addJob any_expression ''job_1'' cfg empty_monitor)"

text \<open>The registry with one job, one execution of it in flight.\<close>

definition overlapping :: ScheduledMonitor where
  "overlapping = run_events any_expression (registered config_alerting) [Tick 0]"


section \<open>Expiry status from the day count\<close>

lemma days_until_ceiling:
  "days_until expiry now = \<lceil>real_of_int (expiry - now) / 86400000\<rceil>"
proof -
  have "- (real_of_int (expiry - now) / 86400000) = real_of_int (now - expiry) / real_of_int 86400000"
    by (simp add: diff_divide_distrib)
  then have "\<lceil>real_of_int (expiry - now) / 86400000\<rceil> = - \<lfloor>real_of_int (now - expiry) / real_of_int 86400000\<rfloor>"
    by (simp only: ceiling_def)
  also have "\<dots> = - ((now - expiry) div 86400000)"
    by (simp only: floor_divide_of_int_eq)
  finally show ?thesis
    by (simp add: days_until_def msPerDay_def)
qed

lemma ssl_status_of_cases:
  "ssl_status_of d = (if d > 30 then SslValid else if 1 \<le> d then SslExpiringSoon else SslExpired)"
  by (simp add: ssl_status_of_def)

lemma domain_status_of_cases:
  "domain_status_of d =
     (if d > 30 then DomainValid else if 1 \<le> d then DomainExpiringSoon else DomainExpired)"
  by (simp add: domain_status_of_def)

lemma monitorSSL_certificate:
  assumes "ssl_certificate (sslMonitoring (monitorSSL w u r)) = Some c"
  shows "daysUntilExpiry c = days_until (validTo c) (now_ssl w)
         \<and> ssl_status (sslMonitoring (monitorSSL w u r)) = ssl_status_of (daysUntilExpiry c)"
  using assms
  by (auto simp: monitorSSL_def try_catch_def Let_def toISOString_def
           split: sum.splits option.splits)

lemma monitorDomainExpiration_expiry:
  assumes "dom_expiryDate (domainExpiration (monitorDomainExpiration w u r)) = Some t"
  shows "dom_daysUntilExpiry (domainExpiration (monitorDomainExpiration w u r))
           = Some (days_until t (now_domain w))
         \<and> dom_status (domainExpiration (monitorDomainExpiration w u r))
           = domain_status_of (days_until t (now_domain w))"
  using assms
  by (auto simp: monitorDomainExpiration_def try_catch_def Let_def
           split: sum.splits option.splits if_splits prod.splits)

lemma monitorSSL_forward:
  assumes "URL_new w u = Some p"
    and "tls_connect w (hostname p) (case port p of None \<Rightarrow> 443 | Some n \<Rightarrow> n) = Inr cert"
    and "new_Date w (valid_from cert) = Some f"
    and "new_Date w (valid_to cert) = Some t"
  shows "sslMonitoring (monitorSSL w u r)
           = \<lparr> ssl_status = ssl_status_of (days_until t (now_ssl w)),
               ssl_certificate = Some \<lparr> issuer = issuer_name cert, validFrom = f, validTo = t,
                                        daysUntilExpiry = days_until t (now_ssl w) \<rparr>,
               ssl_error = None \<rparr>"
  using assms
  by (simp add: monitorSSL_def try_catch_def new_URL_def toISOString_def Let_def)

lemma monitorDomainExpiration_forward:
  assumes "URL_new w u = Some p"
    and "find_expiry w (registered_domain w (hostname p)) = Inr (Inr str)"
    and "parseDateString (date_other w) str = Some t"
  shows "domainExpiration (monitorDomainExpiration w u r)
           = \<lparr> dom_status = domain_status_of (days_until t (now_domain w)),
               dom_expiryDate = Some t,
               dom_daysUntilExpiry = Some (days_until t (now_domain w)), dom_error = None \<rparr>"
  using assms
  by (simp add: monitorDomainExpiration_def try_catch_def new_URL_def Let_def)

text \<open>
  C3.  When the TLS connection hands over a certificate whose two dates parse, the entry
  of the TLS check carries as day count the ceiling of the time from now to the end of
  validity divided by one day, and as status a function of that count alone: valid above
  30, expiring soon from 1 to 30, expired at 0 and below.  When the lookup finds an expiry
  string that parses, the entry of the domain check carries the day count and the status
  computed the same way from the parsed instant.  Conversely, whenever either check
  reports a certificate or an expiry date, the day count and the status it reports stand
  in this relation to that date.
\<close>

theorem expiry_status_from_days:
  "(\<forall>p cert f t d. URL_new w u = Some p
        \<and> tls_connect w (hostname p) (case port p of None \<Rightarrow> 443 | Some n \<Rightarrow> n) = Inr cert
        \<and> new_Date w (valid_from cert) = Some f \<and> new_Date w (valid_to cert) = Some t
        \<and> d = \<lceil>real_of_int (t - now_ssl w) / 86400000\<rceil> \<longrightarrow>
      sslMonitoring (monitorSSL w u r)
        = \<lparr> ssl_status = (if d > 30 then SslValid else if 1 \<le> d then SslExpiringSoon else SslExpired),
            ssl_certificate = Some \<lparr> issuer = issuer_name cert, validFrom = f, validTo = t,
                                     daysUntilExpiry = d \<rparr>,
            ssl_error = None \<rparr>)
   \<and> (\<forall>p str t d. URL_new w u = Some p
        \<and> find_expiry w (registered_domain w (hostname p)) = Inr (Inr str)
        \<and> parseDateString (date_other w) str = Some t
        \<and> d = \<lceil>real_of_int (t - now_domain w) / 86400000\<rceil> \<longrightarrow>
      domainExpiration (monitorDomainExpiration w u r)
        = \<lparr> dom_status = (if d > 30 then DomainValid else if 1 \<le> d then DomainExpiringSoon
                           else DomainExpired),
            dom_expiryDate = Some t, dom_daysUntilExpiry = Some d, dom_error = None \<rparr>)
   \<and> (\<forall>c. ssl_certificate (sslMonitoring (monitorSSL w u r)) = Some c \<longrightarrow>
      daysUntilExpiry c = \<lceil>real_of_int (validTo c - now_ssl w) / 86400000\<rceil>
      \<and> ssl_status (sslMonitoring (monitorSSL w u r)) =
          (if daysUntilExpiry c > 30 then SslValid
           else if 1 \<le> daysUntilExpiry c then SslExpiringSoon else SslExpired))
   \<and> (\<forall>t d. dom_expiryDate (domainExpiration (monitorDomainExpiration w u r)) = Some t
            \<and> d = \<lceil>real_of_int (t - now_domain w) / 86400000\<rceil> \<longrightarrow>
      dom_daysUntilExpiry (domainExpiration (monitorDomainExpiration w u r)) = Some d
      \<and> dom_status (domainExpiration (monitorDomainExpiration w u r)) =
          (if d > 30 then DomainValid else if 1 \<le> d then DomainExpiringSoon else DomainExpired))"
proof (intro conjI allI impI)
  fix p cert f t d
  assume a: "URL_new w u = Some p
        \<and> tls_connect w (hostname p) (case port p of None \<Rightarrow> 443 | Some n \<Rightarrow> n) = Inr cert
        \<and> new_Date w (valid_from cert) = Some f \<and> new_Date w (valid_to cert) = Some t
        \<and> d = \<lceil>real_of_int (t - now_ssl w) / 86400000\<rceil>"
  then have d: "d = days_until t (now_ssl w)"
    by (simp add: days_until_ceiling)
  from a have "sslMonitoring (monitorSSL w u r)
           = \<lparr> ssl_status = ssl_status_of (days_until t (now_ssl w)),
               ssl_certificate = Some \<lparr> issuer = issuer_name cert, validFrom = f, validTo = t,
                                        daysUntilExpiry = days_until t (now_ssl w) \<rparr>,
               ssl_error = None \<rparr>"
    using monitorSSL_forward [where p = p and cert = cert and f = f and t = t] by blast
  with d show "sslMonitoring (monitorSSL w u r)
        = \<lparr> ssl_status = (if d > 30 then SslValid else if 1 \<le> d then SslExpiringSoon else SslExpired),
            ssl_certificate = Some \<lparr> issuer = issuer_name cert, validFrom = f, validTo = t,
                                     daysUntilExpiry = d \<rparr>,
            ssl_error = None \<rparr>"
    by (simp add: ssl_status_of_cases)
next
  fix p str t d
  assume a: "URL_new w u = Some p
        \<and> find_expiry w (registered_domain w (hostname p)) = Inr (Inr str)
        \<and> parseDateString (date_other w) str = Some t
        \<and> d = \<lceil>real_of_int (t - now_domain w) / 86400000\<rceil>"
  then have d: "d = days_until t (now_domain w)"
    by (simp add: days_until_ceiling)
  from a have "domainExpiration (monitorDomainExpiration w u r)
           = \<lparr> dom_status = domain_status_of (days_until t (now_domain w)),
               dom_expiryDate = Some t,
               dom_daysUntilExpiry = Some (days_until t (now_domain w)), dom_error = None \<rparr>"
    using monitorDomainExpiration_forward [where p = p and str = str and t = t] by blast
  with d show "domainExpiration (monitorDomainExpiration w u r)
        = \<lparr> dom_status = (if d > 30 then DomainValid else if 1 \<le> d then DomainExpiringSoon
                           else DomainExpired),
            dom_expiryDate = Some t, dom_daysUntilExpiry = Some d, dom_error = None \<rparr>"
    by (simp add: domain_status_of_cases)
next
  fix c
  assume c: "ssl_certificate (sslMonitoring (monitorSSL w u r)) = Some c"
  from monitorSSL_certificate [OF c]
  show "daysUntilExpiry c = \<lceil>real_of_int (validTo c - now_ssl w) / 86400000\<rceil>"
    by (simp add: days_until_ceiling)
  from monitorSSL_certificate [OF c]
  show "ssl_status (sslMonitoring (monitorSSL w u r)) =
          (if daysUntilExpiry c > 30 then SslValid
           else if 1 \<le> daysUntilExpiry c then SslExpiringSoon else SslExpired)"
    by (simp add: ssl_status_of_cases)
next
  fix t d
  assume a: "dom_expiryDate (domainExpiration (monitorDomainExpiration w u r)) = Some t
            \<and> d = \<lceil>real_of_int (t - now_domain w) / 86400000\<rceil>"
  then have t: "dom_expiryDate (domainExpiration (monitorDomainExpiration w u r)) = Some t"
    and d: "d = days_until t (now_domain w)"
    by (simp_all add: days_until_ceiling)
  from monitorDomainExpiration_expiry [OF t] d
  show "dom_daysUntilExpiry (domainExpiration (monitorDomainExpiration w u r)) = Some d"
    by simp
  from monitorDomainExpiration_expiry [OF t] d
  show "dom_status (domainExpiration (monitorDomainExpiration w u r)) =
          (if d > 30 then DomainValid else if 1 \<le> d then DomainExpiringSoon else DomainExpired)"
    by (simp add: domain_status_of_cases)
qed

text \<open>
  A certificate with 200 days left is valid and a registration with 10 days left is
  expiring soon; at the boundaries, a certificate with exactly 30 days left is expiring
  soon, and a registration that ends at this instant has 0 days left and is expired.
\<close>

theorem expiry_status_from_days_witness:
  "sslMonitoring (monitorSSL world_up target (initial_result world_up target))
     = \<lparr> ssl_status = SslValid,
         ssl_certificate = Some \<lparr> issuer = ''R3'', validFrom = 1735689600000,
                                  validTo = 1770249600000, daysUntilExpiry = 200 \<rparr>,
         ssl_error = None \<rparr>
   \<and> domainExpiration (monitorDomainExpiration world_up target (initial_result world_up target))
     = \<lparr> dom_status = DomainExpiringSoon, dom_expiryDate = Some 1753833600000,
         dom_daysUntilExpiry = Some 10, dom_error = None \<rparr>
   \<and> sslMonitoring (monitorSSL world_boundary target (initial_result world_boundary target))
     = \<lparr> ssl_status = SslExpiringSoon,
         ssl_certificate = Some \<lparr> issuer = ''R3'', validFrom = 1735689600000,
                                  validTo = 1755561600000, daysUntilExpiry = 30 \<rparr>,
         ssl_error = None \<rparr>
   \<and> domainExpiration (monitorDomainExpiration world_boundary target (initial_result world_boundary target))
     = \<lparr> dom_status = DomainExpired, dom_expiryDate = Some 1752969600000,
         dom_daysUntilExpiry = Some 0, dom_error = None \<rparr>"
proof -
  let ?host = "\<lparr> hostname = ''example.com'', port = None \<rparr>"
  let ?up = "\<lparr> valid_from = Some ''2025-01-01T00:00:00Z'', valid_to = Some ''2026-02-05T00:00:00Z'',
               issuer_CN = Some ''R3'' \<rparr>"
  let ?bd = "\<lparr> valid_from = Some ''2025-01-01T00:00:00Z'', valid_to = Some ''2025-08-19T00:00:00Z'',
               issuer_CN = Some ''R3'' \<rparr>"
  have u1: "URL_new world_up target = Some ?host"
    by (simp add: world_up_def world_down_def)
  have u2: "URL_new world_boundary target = Some ?host"
    by (simp add: world_boundary_def world_up_def world_down_def)
  have c1: "tls_connect world_up (hostname ?host) (case port ?host of None \<Rightarrow> 443 | Some n \<Rightarrow> n) = Inr ?up"
    by (simp add: world_up_def world_down_def)
  have c2: "tls_connect world_boundary (hostname ?host) (case port ?host of None \<Rightarrow> 443 | Some n \<Rightarrow> n) = Inr ?bd"
    by (simp add: world_boundary_def world_up_def world_down_def)
  have f1: "new_Date world_up (valid_from ?up) = Some 1735689600000" by code_simp
  have t1: "new_Date world_up (valid_to ?up) = Some 1770249600000" by code_simp
  have f2: "new_Date world_boundary (valid_from ?bd) = Some 1735689600000" by code_simp
  have t2: "new_Date world_boundary (valid_to ?bd) = Some 1755561600000" by code_simp
  have n1: "now_ssl world_up = 1752969600000" "now_domain world_up = 1752969600000"
    by (simp_all add: world_up_def world_down_def)
  have n2: "now_ssl world_boundary = 1752969600000" "now_domain world_boundary = 1752969600000"
    by (simp_all add: world_boundary_def world_up_def world_down_def)
  have e1: "find_expiry world_up (registered_domain world_up (hostname ?host))
              = Inr (Inr ''2025-07-30T00:00:00Z'')"
    by code_simp
  have e2: "find_expiry world_boundary (registered_domain world_boundary (hostname ?host))
              = Inr (Inr ''2025-07-20T00:00:00Z'')"
    by code_simp
  have p1: "parseDateString (date_other world_up) ''2025-07-30T00:00:00Z'' = Some 1753833600000"
    by code_simp
  have p2: "parseDateString (date_other world_boundary) ''2025-07-20T00:00:00Z'' = Some 1752969600000"
    by code_simp
  note up = expiry_status_from_days [where w = world_up and u = target
                                       and r = "initial_result world_up target"]
  note bd = expiry_status_from_days [where w = world_boundary and u = target
                                       and r = "initial_result world_boundary target"]
  from up [THEN conjunct1, rule_format, of ?host ?up 1735689600000 1770249600000 200] u1 c1 f1 t1
  have 1: "sslMonitoring (monitorSSL world_up target (initial_result world_up target))
     = \<lparr> ssl_status = SslValid,
         ssl_certificate = Some \<lparr> issuer = ''R3'', validFrom = 1735689600000,
                                  validTo = 1770249600000, daysUntilExpiry = 200 \<rparr>,
         ssl_error = None \<rparr>"
    by (simp add: issuer_name_def n1 n2)
  from up [THEN conjunct2, THEN conjunct1, rule_format,
           of ?host "''2025-07-30T00:00:00Z''" 1753833600000 10] u1 e1 p1
  have 2: "domainExpiration (monitorDomainExpiration world_up target (initial_result world_up target))
     = \<lparr> dom_status = DomainExpiringSoon, dom_expiryDate = Some 1753833600000,
         dom_daysUntilExpiry = Some 10, dom_error = None \<rparr>"
    by (simp add: n1)
  from bd [THEN conjunct1, rule_format, of ?host ?bd 1735689600000 1755561600000 30] u2 c2 f2 t2
  have 3: "sslMonitoring (monitorSSL world_boundary target (initial_result world_boundary target))
     = \<lparr> ssl_status = SslExpiringSoon,
         ssl_certificate = Some \<lparr> issuer = ''R3'', validFrom = 1735689600000,
                                  validTo = 1755561600000, daysUntilExpiry = 30 \<rparr>,
         ssl_error = None \<rparr>"
    by (simp add: issuer_name_def n1 n2)
  from bd [THEN conjunct2, THEN conjunct1, rule_format,
           of ?host "''2025-07-20T00:00:00Z''" 1752969600000 0] u2 e2 p2
  have 4: "domainExpiration (monitorDomainExpiration world_boundary target (initial_result world_boundary target))
     = \<lparr> dom_status = DomainExpired, dom_expiryDate = Some 1752969600000,
         dom_daysUntilExpiry = Some 0, dom_error = None \<rparr>"
    by (simp add: n2)
  from 1 2 3 4 show ?thesis by simp
qed


section \<open>The date normalizer on the two sample strings\<close>

lemma iso_of_sample: "iso_instant ''2025-07-20T00:00:00Z'' = Some 1752969600000"
  by code_simp

lemma iso_of_sample_ms: "iso_instant ''2025-07-20T00:00:00.000Z'' = Some 1752969600000"
  by code_simp

lemma iso_rejects_dmy: "iso_instant ''20-Jul-2025'' = None"
  by code_simp

lemma iso_rejects_ZZ: "iso_instant ''2025-07-20T00:00:00.000ZZ'' = None"
  by code_simp

lemma normal_dmy: "replace_trailing_GMT (trim ''20-Jul-2025'') = ''20-Jul-2025''"
  by code_simp

lemma normal_GMT: "replace_trailing_GMT (trim ''2025-07-20T00:00:00.000 GMT'') = ''2025-07-20T00:00:00.000Z''"
  by code_simp

lemma normal_Z_GMT:
  "replace_trailing_GMT (trim ''2025-07-20T00:00:00.000Z GMT'') = ''2025-07-20T00:00:00.000ZZ''"
  by code_simp

lemma dmy_of_sample: "dmy_iso ''20-Jul-2025'' = Some ''2025-07-20T00:00:00Z''"
  by code_simp

lemma dmy_of_ZZ: "dmy_iso ''2025-07-20T00:00:00.000ZZ'' = None"
  by code_simp

text \<open>
  C4, as the code has it.  The normalizer trims the string and replaces a trailing \<^verbatim>\<open>GMT\<close>
  together with the white space before it by \<^verbatim>\<open>Z\<close>; then the general parse, the
  day-month-year pattern and the last-resort parse are tried in this order.
  \<^verbatim>\<open>20-Jul-2025\<close> gives the instant 2025-07-20T00:00:00Z unless the general parse of the
  runtime reads the string itself, whose value then wins.  \<^verbatim>\<open>2025-07-20T00:00:00.000 GMT\<close>
  gives that instant on every runtime.  \<^verbatim>\<open>2025-07-20T00:00:00.000Z GMT\<close> becomes
  \<^verbatim>\<open>2025-07-20T00:00:00.000ZZ\<close>, which is outside the date-time string format, and the result
  is what the runtime makes of that string.
\<close>

theorem parseDateString_samples:
  "parseDateString other ''20-Jul-2025''
     = (case other ''20-Jul-2025'' of Some d \<Rightarrow> Some d | None \<Rightarrow> Some 1752969600000)
   \<and> parseDateString other ''2025-07-20T00:00:00.000 GMT'' = Some 1752969600000
   \<and> replace_trailing_GMT (trim ''2025-07-20T00:00:00.000Z GMT'') = ''2025-07-20T00:00:00.000ZZ''
   \<and> parseDateString other ''2025-07-20T00:00:00.000Z GMT'' = other ''2025-07-20T00:00:00.000ZZ''"
proof (intro conjI)
  show "parseDateString other ''20-Jul-2025''
     = (case other ''20-Jul-2025'' of Some d \<Rightarrow> Some d | None \<Rightarrow> Some 1752969600000)"
    unfolding parseDateString_def Date_parse_def Let_def normal_dmy
    by (simp add: iso_rejects_dmy dmy_of_sample iso_of_sample split: option.splits)
  show "parseDateString other ''2025-07-20T00:00:00.000 GMT'' = Some 1752969600000"
    unfolding parseDateString_def Date_parse_def Let_def normal_GMT
    by (simp add: iso_of_sample_ms)
  show "replace_trailing_GMT (trim ''2025-07-20T00:00:00.000Z GMT'') = ''2025-07-20T00:00:00.000ZZ''"
    by (rule normal_Z_GMT)
  show "parseDateString other ''2025-07-20T00:00:00.000Z GMT'' = other ''2025-07-20T00:00:00.000ZZ''"
    unfolding parseDateString_def Date_parse_def Let_def normal_Z_GMT
    by (simp add: iso_rejects_ZZ dmy_of_ZZ split: option.splits)
qed

text \<open>
  On a runtime whose parser rejects a string that ends in \<^verbatim>\<open>ZZ\<close>, as the one of Node does,
  the second sample of the claim has no date at all.
\<close>

theorem parseDateString_Z_GMT_counterexample:
  "parseDateString strict_runtime ''2025-07-20T00:00:00.000Z GMT'' \<noteq> Some 1752969600000"
  by code_simp


section \<open>What each probe leaves alone\<close>

lemma monitorWebsiteStatus_keeps [simp]:
  "url (monitorWebsiteStatus w u r) = url r"
  "dnsMonitoring (monitorWebsiteStatus w u r) = dnsMonitoring r"
  "sslMonitoring (monitorWebsiteStatus w u r) = sslMonitoring r"
  "domainExpiration (monitorWebsiteStatus w u r) = domainExpiration r"
  "portMonitoring (monitorWebsiteStatus w u r) = portMonitoring r"
  "pingMonitoring (monitorWebsiteStatus w u r) = pingMonitoring r"
  "keywordMonitoring (monitorWebsiteStatus w u r) = keywordMonitoring r"
  by (simp_all add: monitorWebsiteStatus_def try_catch_def Let_def split: sum.splits)

lemma monitorDNS_keeps [simp]:
  "url (monitorDNS w u r) = url r"
  "websiteMonitoring (monitorDNS w u r) = websiteMonitoring r"
  "responseTime (monitorDNS w u r) = responseTime r"
  "sslMonitoring (monitorDNS w u r) = sslMonitoring r"
  "domainExpiration (monitorDNS w u r) = domainExpiration r"
  "portMonitoring (monitorDNS w u r) = portMonitoring r"
  "pingMonitoring (monitorDNS w u r) = pingMonitoring r"
  "keywordMonitoring (monitorDNS w u r) = keywordMonitoring r"
  by (simp_all add: monitorDNS_def try_catch_def Let_def split: sum.splits)

lemma monitorSSL_keeps [simp]:
  "url (monitorSSL w u r) = url r"
  "websiteMonitoring (monitorSSL w u r) = websiteMonitoring r"
  "responseTime (monitorSSL w u r) = responseTime r"
  "dnsMonitoring (monitorSSL w u r) = dnsMonitoring r"
  "domainExpiration (monitorSSL w u r) = domainExpiration r"
  "portMonitoring (monitorSSL w u r) = portMonitoring r"
  "pingMonitoring (monitorSSL w u r) = pingMonitoring r"
  "keywordMonitoring (monitorSSL w u r) = keywordMonitoring r"
  by (simp_all add: monitorSSL_def try_catch_def Let_def split: sum.splits)

lemma monitorDomainExpiration_frame:
  "\<exists>d. monitorDomainExpiration w u r = r \<lparr> domainExpiration := d \<rparr>"
  by (auto simp: monitorDomainExpiration_def try_catch_def Let_def
           split: sum.splits option.splits prod.splits)

lemma monitorDomainExpiration_keeps [simp]:
  "url (monitorDomainExpiration w u r) = url r"
  "websiteMonitoring (monitorDomainExpiration w u r) = websiteMonitoring r"
  "responseTime (monitorDomainExpiration w u r) = responseTime r"
  "dnsMonitoring (monitorDomainExpiration w u r) = dnsMonitoring r"
  "sslMonitoring (monitorDomainExpiration w u r) = sslMonitoring r"
  "portMonitoring (monitorDomainExpiration w u r) = portMonitoring r"
  "pingMonitoring (monitorDomainExpiration w u r) = pingMonitoring r"
  "keywordMonitoring (monitorDomainExpiration w u r) = keywordMonitoring r"
proof -
  obtain d where "monitorDomainExpiration w u r = r \<lparr> domainExpiration := d \<rparr>"
    using monitorDomainExpiration_frame by blast
  then show
    "url (monitorDomainExpiration w u r) = url r"
    "websiteMonitoring (monitorDomainExpiration w u r) = websiteMonitoring r"
    "responseTime (monitorDomainExpiration w u r) = responseTime r"
    "dnsMonitoring (monitorDomainExpiration w u r) = dnsMonitoring r"
    "sslMonitoring (monitorDomainExpiration w u r) = sslMonitoring r"
    "portMonitoring (monitorDomainExpiration w u r) = portMonitoring r"
    "pingMonitoring (monitorDomainExpiration w u r) = pingMonitoring r"
    "keywordMonitoring (monitorDomainExpiration w u r) = keywordMonitoring r"
    by simp_all
qed

lemma monitorPing_keeps [simp]:
  "url (monitorPing w u r) = url r"
  "websiteMonitoring (monitorPing w u r) = websiteMonitoring r"
  "responseTime (monitorPing w u r) = responseTime r"
  "dnsMonitoring (monitorPing w u r) = dnsMonitoring r"
  "sslMonitoring (monitorPing w u r) = sslMonitoring r"
  "domainExpiration (monitorPing w u r) = domainExpiration r"
  "portMonitoring (monitorPing w u r) = portMonitoring r"
  "keywordMonitoring (monitorPing w u r) = keywordMonitoring r"
  by (simp_all add: monitorPing_def try_catch_def Let_def split: sum.splits option.splits prod.splits)

lemma monitorKeyword_keeps [simp]:
  "url (monitorKeyword w u k r) = url r"
  "websiteMonitoring (monitorKeyword w u k r) = websiteMonitoring r"
  "responseTime (monitorKeyword w u k r) = responseTime r"
  "dnsMonitoring (monitorKeyword w u k r) = dnsMonitoring r"
  "sslMonitoring (monitorKeyword w u k r) = sslMonitoring r"
  "domainExpiration (monitorKeyword w u k r) = domainExpiration r"
  "portMonitoring (monitorKeyword w u k r) = portMonitoring r"
  "pingMonitoring (monitorKeyword w u k r) = pingMonitoring r"
  by (simp_all add: monitorKeyword_def try_catch_def Let_def split: sum.splits)

lemma monitorKeyword_sets [simp]: "\<exists>m. keywordMonitoring (monitorKeyword w u k r) = Some m"
  by (simp add: monitorKeyword_def try_catch_def Let_def split: sum.splits)

lemma monitorPorts_cases:
  "monitorPorts w u r =
     (case URL_new w u of
        None \<Rightarrow> Inl (Error ''Invalid URL'')
      | Some p \<Rightarrow> Inr (r \<lparr> portMonitoring := scan_ports w (hostname p) ports (portMonitoring r) \<rparr>))"
  by (simp add: monitorPorts_def new_URL_def split: option.splits)

text \<open>When the target is no URL the aggregator throws; when it is one, a report comes back.\<close>

lemma monitorWebsite_throws:
  "URL_new w u = None \<Longrightarrow> monitorWebsite w u keyword = Inl (Error ''Invalid URL'')"
  by (simp add: monitorWebsite_def monitorPorts_cases Let_def)

lemma monitorWebsite_returns:
  "URL_new w u = Some p \<Longrightarrow>
   monitorWebsite w u keyword =
     Inr ((if falsy keyword then (\<lambda>r. r) else monitorKeyword w u (the keyword))
            (monitorPing w u
              ((before_ports w u)
                 \<lparr> portMonitoring := scan_ports w (hostname p) ports [] \<rparr>)))"
  by (simp add: monitorWebsite_def monitorPorts_cases Let_def before_ports_def initial_result_def)

lemma monitorWebsite_returns_iff:
  "(\<exists>r. monitorWebsite w u keyword = Inr r) \<longleftrightarrow> URL_new w u \<noteq> None"
proof (cases "URL_new w u")
  case None
  then show ?thesis by (simp add: monitorWebsite_throws)
next
  case (Some p)
  then show ?thesis by (simp add: monitorWebsite_returns)
qed

lemma own_entry_only:
  "websiteMonitoring (monitorWebsiteStatus w u r) = websiteMonitoring (monitorWebsiteStatus w u r')"
  "responseTime (monitorWebsiteStatus w u r) = responseTime (monitorWebsiteStatus w u r')"
  "dnsMonitoring (monitorDNS w u r) = dnsMonitoring (monitorDNS w u r')"
  "sslMonitoring (monitorSSL w u r) = sslMonitoring (monitorSSL w u r')"
  "pingMonitoring (monitorPing w u r) = pingMonitoring (monitorPing w u r')"
  "keywordMonitoring (monitorKeyword w u k r) = keywordMonitoring (monitorKeyword w u k r')"
  by (simp_all add: monitorWebsiteStatus_def monitorDNS_def monitorSSL_def monitorPing_def
        monitorKeyword_def try_catch_def Let_def split: sum.splits option.splits prod.splits)

lemma own_domain_entry_only:
  "domainExpiration (monitorDomainExpiration w u r) = domainExpiration (monitorDomainExpiration w u r')"
  by (simp add: monitorDomainExpiration_def try_catch_def Let_def
        split: sum.splits option.splits prod.splits)

text \<open>
  In a report that comes back, the entry of each category is the one its probe writes on
  the initial report: no probe reads or changes what another has written.
\<close>

lemma report_entries_are_the_probes_own:
  assumes "monitorWebsite w u keyword = Inr r"
  shows "websiteMonitoring r = websiteMonitoring (monitorWebsiteStatus w u (initial_result w u))"
    and "responseTime r = responseTime (monitorWebsiteStatus w u (initial_result w u))"
    and "dnsMonitoring r = dnsMonitoring (monitorDNS w u (initial_result w u))"
    and "sslMonitoring r = sslMonitoring (monitorSSL w u (initial_result w u))"
    and "domainExpiration r = domainExpiration (monitorDomainExpiration w u (initial_result w u))"
    and "pingMonitoring r = pingMonitoring (monitorPing w u (initial_result w u))"
    and "keyword \<noteq> None \<and> keyword \<noteq> Some [] \<longrightarrow>
           keywordMonitoring r = keywordMonitoring (monitorKeyword w u (the keyword) (initial_result w u))"
proof -
  from assms obtain p where p: "URL_new w u = Some p"
    using monitorWebsite_returns_iff [of w u keyword] by auto
  from assms monitorWebsite_returns [OF p, of keyword]
  have r: "r = (if falsy keyword then (\<lambda>r. r) else monitorKeyword w u (the keyword))
                 (monitorPing w u
                    ((before_ports w u) \<lparr> portMonitoring := scan_ports w (hostname p) ports [] \<rparr>))"
    by simp
  show "websiteMonitoring r = websiteMonitoring (monitorWebsiteStatus w u (initial_result w u))"
    and "responseTime r = responseTime (monitorWebsiteStatus w u (initial_result w u))"
    by (simp_all add: r before_ports_def)
  show "dnsMonitoring r = dnsMonitoring (monitorDNS w u (initial_result w u))"
    using own_entry_only(3) by (simp add: r before_ports_def)
  show "sslMonitoring r = sslMonitoring (monitorSSL w u (initial_result w u))"
    using own_entry_only(4) by (simp add: r before_ports_def)
  show "domainExpiration r = domainExpiration (monitorDomainExpiration w u (initial_result w u))"
    using own_domain_entry_only by (simp add: r before_ports_def)
  show "pingMonitoring r = pingMonitoring (monitorPing w u (initial_result w u))"
    using own_entry_only(5) by (simp add: r)
  show "keyword \<noteq> None \<and> keyword \<noteq> Some [] \<longrightarrow>
           keywordMonitoring r = keywordMonitoring (monitorKeyword w u (the keyword) (initial_result w u))"
    using own_entry_only(6) by (simp add: r falsy_def)
qed

lemma siblings_catch_url_failure:
  assumes "URL_new w u = None"
  shows "dns_status (dnsMonitoring (monitorDNS w u r)) = DnsError"
    and "ssl_status (sslMonitoring (monitorSSL w u r)) = SslError"
    and "dom_status (domainExpiration (monitorDomainExpiration w u r)) = DomainError"
    and "ping_status (pingMonitoring (monitorPing w u r)) = PingError"
    and "monitorPorts w u r = Inl (Error ''Invalid URL'')"
  using assms
  by (simp_all add: monitorDNS_def monitorSSL_def monitorDomainExpiration_def monitorPing_def
        monitorPorts_cases new_URL_def try_catch_def)

lemma scan_ports_keys: "map fst (scan_ports w host ports []) = ports"
  by (simp add: ports_def)


section \<open>A target that is no URL\<close>

text \<open>
  C1.  The claim: for every target string, one that does not parse included, the
  aggregator returns a report, every fault being caught inside its probe.  In a world where
  \<^verbatim>\<open>not a url\<close> is no URL, each of the probes for DNS, TLS, domain and ping catches the
  exception of the URL constructor, and the port probe lets it through: the aggregator
  throws and no report is returned.
\<close>

theorem monitorWebsite_unparsable_target:
  "monitorWebsite world_down ''not a url'' None = Inl (Error ''Invalid URL'')"
  by code_simp


section \<open>The keyword as a pattern\<close>

text \<open>
  C9.  The claim: the keyword result carries the case-insensitive count of occurrences of
  the keyword string in the body.  The body \<^verbatim>\<open>price 125\<close> does not contain the keyword
  \<^verbatim>\<open>1.5\<close>, and the probe reports it found once: the keyword is compiled as a regular
  expression, whose dot matches the \<^verbatim>\<open>2\<close>.
\<close>

theorem monitorKeyword_dot_keyword:
  "fetch_keyword world_up target
     = Inr \<lparr> status = 200, statusText = ''OK'', body_text = Inr ''price 125'' \<rparr>
   \<and> \<not> test_i ''1.5'' ''price 125''
   \<and> keywordMonitoring (monitorKeyword world_up target ''1.5'' (initial_result world_up target))
     = Some \<lparr> kw_status = Found, kw_keyword = Some ''1.5'', kw_occurrences = Some 1,
              kw_error = None \<rparr>"
  by code_simp


section \<open>The availability probe\<close>

lemma Math_round_near: "\<bar>real_of_int (Math_round x) - x\<bar> \<le> 1 / 2"
  unfolding Math_round_def by linarith

text \<open>
  C5, as the code has it.  For every completed response the status is online exactly when
  the status code of the response is in the range 200 to 299 and offline otherwise, the
  status code is carried in the report, and the latency reported is the span between the
  two clock readings around the request, rounded to the nearest millisecond.
\<close>

theorem website_status_of_response:
  assumes "fetch_status w u = Inr response"
  shows "websiteMonitoring (monitorWebsiteStatus w u r)
           = \<lparr> ws_status = (if 200 \<le> status response \<and> status response < 300 then Online else Offline),
               ws_statusCode = Some (status response), ws_error = None \<rparr>
         \<and> rt_value (responseTime (monitorWebsiteStatus w u r)) = \<lfloor>perf_end w - perf_start w + 1 / 2\<rfloor>
         \<and> \<bar>real_of_int (rt_value (responseTime (monitorWebsiteStatus w u r)))
              - (perf_end w - perf_start w)\<bar> \<le> 1 / 2"
proof -
  have v: "rt_value (responseTime (monitorWebsiteStatus w u r)) = Math_round (perf_end w - perf_start w)"
    using assms by (simp add: monitorWebsiteStatus_def try_catch_def Let_def)
  have s: "websiteMonitoring (monitorWebsiteStatus w u r)
           = \<lparr> ws_status = (if 200 \<le> status response \<and> status response < 300 then Online else Offline),
               ws_statusCode = Some (status response), ws_error = None \<rparr>"
    using assms by (simp add: monitorWebsiteStatus_def try_catch_def Let_def ok_def)
  from v s Math_round_near [of "perf_end w - perf_start w"] show ?thesis
    by (simp add: Math_round_def)
qed

theorem website_status_of_response_witness:
  "fetch_status world_up target
     = Inr \<lparr> status = 200, statusText = ''OK'', body_text = Inr ''price 125'' \<rparr>
   \<and> websiteMonitoring (monitorWebsiteStatus world_up target (initial_result world_up target))
     = \<lparr> ws_status = Online, ws_statusCode = Some 200, ws_error = None \<rparr>
   \<and> rt_value (responseTime (monitorWebsiteStatus world_up target (initial_result world_up target)))
     = 150"
proof -
  have f: "fetch_status world_up target
             = Inr \<lparr> status = 200, statusText = ''OK'', body_text = Inr ''price 125'' \<rparr>"
    by (simp add: world_up_def world_down_def)
  have p: "perf_end world_up - perf_start world_up = 1504 / 10"
    by (simp add: world_up_def world_down_def)
  from website_status_of_response [OF f, of "initial_result world_up target"] f p
  show ?thesis by simp
qed

text \<open>A completed response with status 304 is in the range 2xx to 3xx and is reported offline.\<close>

theorem website_status_304_counterexample:
  "fetch_status world_not_modified target
     = Inr \<lparr> status = 304, statusText = ''Not Modified'', body_text = Inr [] \<rparr>
   \<and> websiteMonitoring (monitorWebsiteStatus world_not_modified target
        (initial_result world_not_modified target))
     = \<lparr> ws_status = Offline, ws_statusCode = Some 304, ws_error = None \<rparr>"
  by code_simp


section \<open>Every category in every report\<close>

lemma website_error_entry:
  "fetch_status w u = Inl e \<Longrightarrow>
   ws_status (websiteMonitoring (monitorWebsiteStatus w u r)) = WebsiteError
   \<and> rt_status (responseTime (monitorWebsiteStatus w u r)) = Critical"
  by (simp add: monitorWebsiteStatus_def try_catch_def)

lemma dns_entry:
  "URL_new w u = Some p \<Longrightarrow>
   dns_status (dnsMonitoring (monitorDNS w u r)) = Resolved
   \<and> dns_records (dnsMonitoring (monitorDNS w u r)) \<noteq> None"
  by (simp add: monitorDNS_def try_catch_def new_URL_def Let_def)

lemma ssl_error_entry:
  "URL_new w u = Some p \<Longrightarrow>
   tls_connect w (hostname p) (case port p of None \<Rightarrow> 443 | Some n \<Rightarrow> n) = Inl e \<Longrightarrow>
   ssl_status (sslMonitoring (monitorSSL w u r)) = SslError"
  by (simp add: monitorSSL_def try_catch_def new_URL_def Let_def)

lemma domain_error_entry:
  "URL_new w u = Some p \<Longrightarrow>
   falsy (rdap_expiry w (registered_domain w (hostname p))) \<Longrightarrow>
   exec_whois w (registered_domain w (hostname p)) = Inl e \<Longrightarrow>
   dom_status (domainExpiration (monitorDomainExpiration w u r)) = DomainError"
  by (simp add: monitorDomainExpiration_def find_expiry_def try_catch_def new_URL_def Let_def)

lemma ping_error_entry:
  "URL_new w u = Some p \<Longrightarrow> exec_ping w (hostname p) = Inl e \<Longrightarrow>
   ping_status (pingMonitoring (monitorPing w u r)) = PingError"
  by (simp add: monitorPing_def try_catch_def new_URL_def)

lemma keyword_error_entry:
  "fetch_keyword w u = Inl e \<Longrightarrow>
   \<exists>m. keywordMonitoring (monitorKeyword w u k r) = Some m \<and> kw_status m = KeywordError"
  by (simp add: monitorKeyword_def try_catch_def)

lemma initial_keyword [simp]: "keywordMonitoring (initial_result w u) = None"
  by (simp add: initial_result_def)

lemma initial_url [simp]: "url (initial_result w u) = u"
  by (simp add: initial_result_def)

text \<open>Each probe ends in the error status exactly when one of its steps fails.\<close>

lemma website_error_iff:
  "(ws_status (websiteMonitoring (monitorWebsiteStatus w u r)) = WebsiteError)
     = (\<exists>e. fetch_status w u = Inl e)"
  by (cases "fetch_status w u") (simp_all add: monitorWebsiteStatus_def try_catch_def Let_def)

lemma ssl_error_iff:
  assumes "URL_new w u = Some p"
  shows "(ssl_status (sslMonitoring (monitorSSL w u r)) = SslError)
     = (\<not> (\<exists>cert f t.
            tls_connect w (hostname p) (case port p of None \<Rightarrow> 443 | Some n \<Rightarrow> n) = Inr cert
            \<and> new_Date w (valid_from cert) = Some f \<and> new_Date w (valid_to cert) = Some t))"
  using assms
  by (auto simp: monitorSSL_def try_catch_def new_URL_def toISOString_def Let_def ssl_status_of_def
           split: sum.splits option.splits)

lemma domain_error_iff:
  assumes "URL_new w u = Some p"
  shows "(dom_status (domainExpiration (monitorDomainExpiration w u r)) = DomainError)
     = (\<not> (\<exists>str t. find_expiry w (registered_domain w (hostname p)) = Inr (Inr str)
                  \<and> parseDateString (date_other w) str = Some t))"
  using assms
  by (auto simp: monitorDomainExpiration_def try_catch_def new_URL_def Let_def domain_status_of_def
           split: sum.splits option.splits)

lemma ping_error_iff:
  assumes "URL_new w u = Some p"
  shows "(ping_status (pingMonitoring (monitorPing w u r)) = PingError)
     = (\<exists>e. exec_ping w (hostname p) = Inl e)"
  using assms
  by (auto simp: monitorPing_def try_catch_def new_URL_def split: sum.splits option.splits prod.splits)

lemma keyword_error_iff:
  "\<exists>m. keywordMonitoring (monitorKeyword w u k r) = Some m
       \<and> (kw_status m = KeywordError)
         = (\<not> (\<exists>response content n. fetch_keyword w u = Inr response \<and> ok response
                  \<and> body_text response = Inr content \<and> match_count_gi w k content = Inr n))"
  by (auto simp: monitorKeyword_def try_catch_def Let_def split: sum.splits)

lemma scan_ports_entries:
  "scan_ports w host ports [] = map (\<lambda>q. (q, port_entry (net_connect w q host))) ports"
  by (simp add: ports_def)

lemma port_error_iff: "(port_status (port_entry out) = PortError) = (out = SetupThrows)"
  by (cases out) (simp_all add: port_entry_def)

text \<open>
  C2.  A report the aggregator returns names its target, holds a keyword entry exactly
  when a keyword was given and is not the empty string, and holds a port entry for each of
  the fourteen scanned ports, in their order, each the outcome of its own connection.  The
  seven other categories are fields of the report that every report has, and a category
  that failed holds the error status: the availability entry exactly when the request
  threw; the TLS entry exactly when the connection failed or the certificate lacks a date
  that parses; the domain entry exactly when the whois command failed, no expiry string
  was found or the string found does not parse; the ping entry exactly when the command
  failed; the keyword entry exactly when the request threw, the response was not a 2xx,
  the body could not be read or the pattern could not be matched; a port entry exactly
  when the socket could not be set up.  The DNS entry is always a resolved one with its
  record sets, a failed lookup leaving its set empty.
\<close>

theorem report_has_every_category:
  assumes "monitorWebsite w u keyword = Inr r"
  shows "url r = u
     \<and> (keywordMonitoring r \<noteq> None \<longleftrightarrow> keyword \<noteq> None \<and> keyword \<noteq> Some [])
     \<and> map fst (portMonitoring r) = ports
     \<and> dns_status (dnsMonitoring r) = Resolved \<and> dns_records (dnsMonitoring r) \<noteq> None
     \<and> (\<forall>e. fetch_status w u = Inl e \<longrightarrow>
           ws_status (websiteMonitoring r) = WebsiteError \<and> rt_status (responseTime r) = Critical)
     \<and> (\<forall>p e. URL_new w u = Some p
              \<and> tls_connect w (hostname p) (case port p of None \<Rightarrow> 443 | Some n \<Rightarrow> n) = Inl e \<longrightarrow>
           ssl_status (sslMonitoring r) = SslError)
     \<and> (\<forall>p e. URL_new w u = Some p \<and> falsy (rdap_expiry w (registered_domain w (hostname p)))
              \<and> exec_whois w (registered_domain w (hostname p)) = Inl e \<longrightarrow>
           dom_status (domainExpiration r) = DomainError)
     \<and> (\<forall>p e. URL_new w u = Some p \<and> exec_ping w (hostname p) = Inl e \<longrightarrow>
           ping_status (pingMonitoring r) = PingError)
     \<and> (\<forall>e. keyword \<noteq> None \<and> keyword \<noteq> Some [] \<and> fetch_keyword w u = Inl e \<longrightarrow>
           (\<exists>m. keywordMonitoring r = Some m \<and> kw_status m = KeywordError))
     \<and> ((ws_status (websiteMonitoring r) = WebsiteError) = (\<exists>e. fetch_status w u = Inl e))
     \<and> (\<forall>p. URL_new w u = Some p \<longrightarrow>
           (ssl_status (sslMonitoring r) = SslError)
             = (\<not> (\<exists>cert f t.
                   tls_connect w (hostname p) (case port p of None \<Rightarrow> 443 | Some n \<Rightarrow> n) = Inr cert
                   \<and> new_Date w (valid_from cert) = Some f
                   \<and> new_Date w (valid_to cert) = Some t)))
     \<and> (\<forall>p. URL_new w u = Some p \<longrightarrow>
           (dom_status (domainExpiration r) = DomainError)
             = (\<not> (\<exists>str t. find_expiry w (registered_domain w (hostname p)) = Inr (Inr str)
                         \<and> parseDateString (date_other w) str = Some t)))
     \<and> (\<forall>p. URL_new w u = Some p \<longrightarrow>
           (ping_status (pingMonitoring r) = PingError) = (\<exists>e. exec_ping w (hostname p) = Inl e))
     \<and> (\<forall>k. keyword = Some k \<and> k \<noteq> [] \<longrightarrow>
           (\<exists>m. keywordMonitoring r = Some m
              \<and> (kw_status m = KeywordError)
                = (\<not> (\<exists>response content n. fetch_keyword w u = Inr response \<and> ok response
                         \<and> body_text response = Inr content
                         \<and> match_count_gi w k content = Inr n))))
     \<and> (\<forall>p. URL_new w u = Some p \<longrightarrow>
           portMonitoring r = map (\<lambda>q. (q, port_entry (net_connect w q (hostname p)))) ports)
     \<and> (\<forall>out. (port_status (port_entry out) = PortError) = (out = SetupThrows))"
proof -
  from assms obtain p where p: "URL_new w u = Some p"
    using monitorWebsite_returns_iff [of w u keyword] by auto
  let ?ported = "(before_ports w u) \<lparr> portMonitoring := scan_ports w (hostname p) ports [] \<rparr>"
  from assms monitorWebsite_returns [OF p, of keyword]
  have r: "r = (if falsy keyword then (\<lambda>r. r) else monitorKeyword w u (the keyword))
                 (monitorPing w u ?ported)"
    by simp
  note own = report_entries_are_the_probes_own [OF assms]
  have 1: "url r = u"
    by (simp add: r before_ports_def)
  have 2: "keywordMonitoring r \<noteq> None \<longleftrightarrow> keyword \<noteq> None \<and> keyword \<noteq> Some []"
    by (simp add: r before_ports_def falsy_def)
  have 3: "map fst (portMonitoring r) = ports"
    by (simp add: r scan_ports_keys)
  have 4: "dns_status (dnsMonitoring r) = Resolved" "dns_records (dnsMonitoring r) \<noteq> None"
    using dns_entry [OF p] by (simp_all add: r before_ports_def)
  have 5: "\<forall>e. fetch_status w u = Inl e \<longrightarrow>
           ws_status (websiteMonitoring r) = WebsiteError \<and> rt_status (responseTime r) = Critical"
    using website_error_entry [of w u] by (auto simp: r before_ports_def)
  have 6: "\<forall>p e. URL_new w u = Some p
              \<and> tls_connect w (hostname p) (case port p of None \<Rightarrow> 443 | Some n \<Rightarrow> n) = Inl e \<longrightarrow>
           ssl_status (sslMonitoring r) = SslError"
    using ssl_error_entry [of w u] by (auto simp: r before_ports_def)
  have 7: "\<forall>p e. URL_new w u = Some p \<and> falsy (rdap_expiry w (registered_domain w (hostname p)))
              \<and> exec_whois w (registered_domain w (hostname p)) = Inl e \<longrightarrow>
           dom_status (domainExpiration r) = DomainError"
    using domain_error_entry [of w u] by (auto simp: r before_ports_def)
  have 8: "\<forall>p e. URL_new w u = Some p \<and> exec_ping w (hostname p) = Inl e \<longrightarrow>
           ping_status (pingMonitoring r) = PingError"
    using ping_error_entry [of w u] by (auto simp: r)
  have 9: "\<forall>e. keyword \<noteq> None \<and> keyword \<noteq> Some [] \<and> fetch_keyword w u = Inl e \<longrightarrow>
           (\<exists>m. keywordMonitoring r = Some m \<and> kw_status m = KeywordError)"
    using keyword_error_entry [of w u] by (auto simp: r falsy_def)
  have 10: "(ws_status (websiteMonitoring r) = WebsiteError) = (\<exists>e. fetch_status w u = Inl e)"
    by (simp only: own(1) website_error_iff)
  have 11: "\<forall>p. URL_new w u = Some p \<longrightarrow>
           (ssl_status (sslMonitoring r) = SslError)
             = (\<not> (\<exists>cert f t.
                   tls_connect w (hostname p) (case port p of None \<Rightarrow> 443 | Some n \<Rightarrow> n) = Inr cert
                   \<and> new_Date w (valid_from cert) = Some f
                   \<and> new_Date w (valid_to cert) = Some t))"
  proof (intro allI impI)
    fix q
    assume "URL_new w u = Some q"
    from ssl_error_iff [OF this, of "initial_result w u"]
    show "(ssl_status (sslMonitoring r) = SslError)
             = (\<not> (\<exists>cert f t.
                   tls_connect w (hostname q) (case port q of None \<Rightarrow> 443 | Some n \<Rightarrow> n) = Inr cert
                   \<and> new_Date w (valid_from cert) = Some f
                   \<and> new_Date w (valid_to cert) = Some t))"
      by (simp only: own(4))
  qed
  have 12: "\<forall>p. URL_new w u = Some p \<longrightarrow>
           (dom_status (domainExpiration r) = DomainError)
             = (\<not> (\<exists>str t. find_expiry w (registered_domain w (hostname p)) = Inr (Inr str)
                         \<and> parseDateString (date_other w) str = Some t))"
  proof (intro allI impI)
    fix q
    assume "URL_new w u = Some q"
    from domain_error_iff [OF this, of "initial_result w u"]
    show "(dom_status (domainExpiration r) = DomainError)
             = (\<not> (\<exists>str t. find_expiry w (registered_domain w (hostname q)) = Inr (Inr str)
                         \<and> parseDateString (date_other w) str = Some t))"
      by (simp only: own(5))
  qed
  have 13: "\<forall>p. URL_new w u = Some p \<longrightarrow>
           (ping_status (pingMonitoring r) = PingError) = (\<exists>e. exec_ping w (hostname p) = Inl e)"
  proof (intro allI impI)
    fix q
    assume "URL_new w u = Some q"
    from ping_error_iff [OF this, of "initial_result w u"]
    show "(ping_status (pingMonitoring r) = PingError) = (\<exists>e. exec_ping w (hostname q) = Inl e)"
      by (simp only: own(6))
  qed
  have 14: "\<forall>k. keyword = Some k \<and> k \<noteq> [] \<longrightarrow>
           (\<exists>m. keywordMonitoring r = Some m
              \<and> (kw_status m = KeywordError)
                = (\<not> (\<exists>response content n. fetch_keyword w u = Inr response \<and> ok response
                         \<and> body_text response = Inr content
                         \<and> match_count_gi w k content = Inr n)))"
  proof (intro allI impI)
    fix k
    assume k: "keyword = Some k \<and> k \<noteq> []"
    then have "keywordMonitoring r = keywordMonitoring (monitorKeyword w u k (initial_result w u))"
      using own(7) by simp
    then show "\<exists>m. keywordMonitoring r = Some m
              \<and> (kw_status m = KeywordError)
                = (\<not> (\<exists>response content n. fetch_keyword w u = Inr response \<and> ok response
                         \<and> body_text response = Inr content
                         \<and> match_count_gi w k content = Inr n))"
      using keyword_error_iff [of w u k "initial_result w u"] by simp
  qed
  have 15: "\<forall>p. URL_new w u = Some p \<longrightarrow>
           portMonitoring r = map (\<lambda>q. (q, port_entry (net_connect w q (hostname p)))) ports"
    using p by (simp add: r scan_ports_entries)
  have 16: "\<forall>out. (port_status (port_entry out) = PortError) = (out = SetupThrows)"
    by (simp add: port_error_iff)
  show ?thesis
    by (intro conjI) (fact 1 2 3 4 5 6 7 8 9 10 11 12 13 14 15 16)+
qed

text \<open>
  With a keyword, against a host where every probe fails, and against a host that
  answers but whose certificate has no dates, whose registration names no expiry and
  whose page is not found: all eight categories, the failed ones in error.
\<close>

theorem report_has_every_category_witness:
  "monitorWebsite world_offline target (Some ''price'') = Inr (report_of world_offline (Some ''price''))
   \<and> keywordMonitoring (report_of world_offline (Some ''price'')) \<noteq> None
   \<and> map fst (portMonitoring (report_of world_offline (Some ''price''))) = ports
   \<and> ws_status (websiteMonitoring (report_of world_offline (Some ''price''))) = WebsiteError
   \<and> dns_status (dnsMonitoring (report_of world_offline (Some ''price''))) = Resolved
   \<and> ssl_status (sslMonitoring (report_of world_offline (Some ''price''))) = SslError
   \<and> dom_status (domainExpiration (report_of world_offline (Some ''price''))) = DomainError
   \<and> ping_status (pingMonitoring (report_of world_offline (Some ''price''))) = PingError
   \<and> (\<exists>m. keywordMonitoring (report_of world_offline (Some ''price'')) = Some m
          \<and> kw_status m = KeywordError)
   \<and> monitorWebsite world_degraded target (Some ''price'') = Inr (report_of world_degraded (Some ''price''))
   \<and> ws_status (websiteMonitoring (report_of world_degraded (Some ''price''))) \<noteq> WebsiteError
   \<and> ssl_status (sslMonitoring (report_of world_degraded (Some ''price''))) = SslError
   \<and> dom_status (domainExpiration (report_of world_degraded (Some ''price''))) = DomainError
   \<and> ping_status (pingMonitoring (report_of world_degraded (Some ''price''))) \<noteq> PingError
   \<and> (\<exists>m. keywordMonitoring (report_of world_degraded (Some ''price'')) = Some m
          \<and> kw_status m = KeywordError)"
proof -
  let ?r = "report_of world_offline (Some ''price'')"
  let ?host = "\<lparr> hostname = ''example.com'', port = None \<rparr>"
  have h: "monitorWebsite world_offline target (Some ''price'') = Inr ?r"
    by code_simp
  have u: "URL_new world_offline target = Some ?host"
    by (simp add: world_offline_def world_down_def)
  have f: "fetch_status world_offline target = Inl (Error ''connect ECONNREFUSED'')"
    by (simp add: world_offline_def world_down_def)
  have t: "tls_connect world_offline (hostname ?host) (case port ?host of None \<Rightarrow> 443 | Some n \<Rightarrow> n)
             = Inl (Error ''getaddrinfo ENOTFOUND'')"
    by (simp add: world_offline_def world_down_def)
  have d: "falsy (rdap_expiry world_offline (registered_domain world_offline (hostname ?host)))"
    by (simp add: falsy_def rdap_expiry_def world_offline_def world_down_def)
  have x: "exec_whois world_offline (registered_domain world_offline (hostname ?host))
             = Inl (Error ''Command failed: whois'')"
    by (simp add: world_offline_def world_down_def)
  have g: "exec_ping world_offline (hostname ?host) = Inl (Error ''Command failed: ping'')"
    by (simp add: world_offline_def world_down_def)
  have k: "fetch_keyword world_offline target = Inl (Error ''connect ECONNREFUSED'')"
    by (simp add: world_offline_def world_down_def)
  note S1 = report_has_every_category [OF h]
  note S2 = S1 [THEN conjunct2]
  note S3 = S2 [THEN conjunct2]
  note S4 = S3 [THEN conjunct2]
  note S5 = S4 [THEN conjunct2]
  note S6 = S5 [THEN conjunct2]
  note S7 = S6 [THEN conjunct2]
  note S8 = S7 [THEN conjunct2]
  note S9 = S8 [THEN conjunct2]
  note S10 = S9 [THEN conjunct2]
  have A1: "keywordMonitoring ?r \<noteq> None"
    using S2 [THEN conjunct1] by simp
  have A2: "map fst (portMonitoring ?r) = ports"
    by (rule S3 [THEN conjunct1])
  have A3: "ws_status (websiteMonitoring ?r) = WebsiteError"
    using S6 [THEN conjunct1, rule_format, OF f] by (rule conjunct1)
  have A4: "dns_status (dnsMonitoring ?r) = Resolved"
    by (rule S4 [THEN conjunct1])
  have A5: "ssl_status (sslMonitoring ?r) = SslError"
    by (rule S7 [THEN conjunct1, rule_format, OF conjI [OF u t]])
  have A6: "dom_status (domainExpiration ?r) = DomainError"
    by (rule S8 [THEN conjunct1, rule_format, OF conjI [OF u conjI [OF d x]]])
  have A7: "ping_status (pingMonitoring ?r) = PingError"
    by (rule S9 [THEN conjunct1, rule_format, OF conjI [OF u g]])
  have A8: "\<exists>m. keywordMonitoring ?r = Some m \<and> kw_status m = KeywordError"
    using S10 [THEN conjunct1, rule_format, of "Error ''connect ECONNREFUSED''"] k by simp
  let ?q = "report_of world_degraded (Some ''price'')"
  have h': "monitorWebsite world_degraded target (Some ''price'') = Inr ?q"
    by code_simp
  have u': "URL_new world_degraded target = Some ?host"
    by (simp add: world_degraded_def world_up_def world_down_def)
  have f': "\<not> (\<exists>e. fetch_status world_degraded target = Inl e)"
    by (simp add: world_degraded_def world_up_def world_down_def)
  have t': "\<not> (\<exists>cert f t.
              tls_connect world_degraded (hostname ?host) (case port ?host of None \<Rightarrow> 443 | Some n \<Rightarrow> n) = Inr cert
              \<and> new_Date world_degraded (valid_from cert) = Some f
              \<and> new_Date world_degraded (valid_to cert) = Some t)"
    by (auto simp: world_degraded_def world_up_def world_down_def new_Date_def)
  have e': "find_expiry world_degraded (registered_domain world_degraded (hostname ?host))
              = Inr (Inl (''No match for domain'' @ [CHR 0x0A]))"
    by code_simp
  have e'': "\<not> (\<exists>str t. find_expiry world_degraded (registered_domain world_degraded (hostname ?host))
                          = Inr (Inr str)
                    \<and> parseDateString (date_other world_degraded) str = Some t)"
    by (simp only: e') simp
  have g': "\<not> (\<exists>e. exec_ping world_degraded (hostname ?host) = Inl e)"
    by (simp add: world_degraded_def world_up_def world_down_def)
  have k': "\<not> (\<exists>response content n. fetch_keyword world_degraded target = Inr response
                \<and> ok response \<and> body_text response = Inr content
                \<and> match_count_gi world_degraded ''price'' content = Inr n)"
    by (auto simp: world_degraded_def world_up_def world_down_def ok_def)
  note T10 = report_has_every_category [OF h', THEN conjunct2, THEN conjunct2, THEN conjunct2,
      THEN conjunct2, THEN conjunct2, THEN conjunct2, THEN conjunct2, THEN conjunct2,
      THEN conjunct2]
  note T11 = T10 [THEN conjunct2]
  note T12 = T11 [THEN conjunct2]
  note T13 = T12 [THEN conjunct2]
  note T14 = T13 [THEN conjunct2]
  note T15 = T14 [THEN conjunct2]
  have B1: "ws_status (websiteMonitoring ?q) \<noteq> WebsiteError"
    using T11 [THEN conjunct1] f' by simp
  have B2: "ssl_status (sslMonitoring ?q) = SslError"
    using T12 [THEN conjunct1, rule_format, OF u'] t' by simp
  have B3: "dom_status (domainExpiration ?q) = DomainError"
    using T13 [THEN conjunct1, rule_format, OF u'] e'' by simp
  have B4: "ping_status (pingMonitoring ?q) \<noteq> PingError"
    using T14 [THEN conjunct1, rule_format, OF u'] g' by simp
  have B5: "\<exists>m. keywordMonitoring ?q = Some m \<and> kw_status m = KeywordError"
    using T15 [THEN conjunct1, rule_format, of "''price''"] k' by simp
  show ?thesis
    by (intro conjI) (fact h A1 A2 A3 A4 A5 A6 A7 A8 h' B1 B2 B3 B4 B5)+
qed


section \<open>The alert rules\<close>

lemma truthy_iff: "truthy x \<longleftrightarrow> (\<exists>v. x = Some v \<and> v \<noteq> 0)"
  by (cases x) (auto simp: truthy_def)

lemma threshold_configured: "threshold cfg field = configured (alertThresholds cfg) field"
  by (simp add: threshold_def configured_def)

lemma alerts_of_spec:
  assumes "configured (alertThresholds cfg) th_responseTime \<noteq> Some 0"
    and "configured (alertThresholds cfg) sslExpiryDays \<noteq> Some 0"
    and "configured (alertThresholds cfg) domainExpiryDays \<noteq> Some 0"
    and "ssl_days result \<noteq> Some 0"
    and "dom_daysUntilExpiry (domainExpiration result) \<noteq> Some 0"
  shows "alerts_of cfg result = spec_alerts (alertThresholds cfg) result"
proof -
  have a: "(if truthy (threshold cfg th_responseTime)
              \<and> rt_value (responseTime result) > the (threshold cfg th_responseTime)
            then [response_time_alert (rt_value (responseTime result)) (the (threshold cfg th_responseTime))]
            else [])
         = (case configured (alertThresholds cfg) th_responseTime of
              Some m \<Rightarrow> if rt_value (responseTime result) > m
                        then [response_time_alert (rt_value (responseTime result)) m] else []
            | None \<Rightarrow> [])"
    using assms(1) by (auto simp: threshold_configured truthy_iff split: option.splits)
  have b: "(if truthy (threshold cfg sslExpiryDays) \<and> truthy (ssl_days result)
              \<and> the (ssl_days result) \<le> the (threshold cfg sslExpiryDays)
           then [ssl_days_alert (the (ssl_days result))] else [])
         = (case (configured (alertThresholds cfg) sslExpiryDays, ssl_days result) of
              (Some m, Some d) \<Rightarrow> if d \<le> m then [ssl_days_alert d] else []
            | _ \<Rightarrow> [])"
    using assms(2,4) by (auto simp: threshold_configured truthy_iff split: option.splits)
  have c: "(if truthy (threshold cfg domainExpiryDays)
              \<and> truthy (dom_daysUntilExpiry (domainExpiration result))
              \<and> the (dom_daysUntilExpiry (domainExpiration result)) \<le> the (threshold cfg domainExpiryDays)
           then [domain_days_alert (the (dom_daysUntilExpiry (domainExpiration result)))] else [])
         = (case (configured (alertThresholds cfg) domainExpiryDays,
                  dom_daysUntilExpiry (domainExpiration result)) of
              (Some m, Some d) \<Rightarrow> if d \<le> m then [domain_days_alert d] else []
            | _ \<Rightarrow> [])"
    using assms(3,5) by (auto simp: threshold_configured truthy_iff split: option.splits)
  show ?thesis
    unfolding alerts_of_def spec_alerts_def a b c ..
qed

text \<open>
  Where no configured threshold and no reported day count is zero, and the notifications
  of the job are enabled, the alerts handed to the mail are the list of the specification,
  and the mail is sent exactly when the list is not empty; where the notifications are
  not enabled nothing is sent.
\<close>

lemma checkAlerts_apart_from_zero:
  "(notifications_on job
      \<and> configured (alertThresholds (config job)) th_responseTime \<noteq> Some 0
      \<and> configured (alertThresholds (config job)) sslExpiryDays \<noteq> Some 0
      \<and> configured (alertThresholds (config job)) domainExpiryDays \<noteq> Some 0
      \<and> ssl_days result \<noteq> Some 0
      \<and> dom_daysUntilExpiry (domainExpiration result) \<noteq> Some 0 \<longrightarrow>
    checkAlerts job result =
      (if spec_alerts (alertThresholds (config job)) result = [] then []
       else [sendAlertEmail job result (spec_alerts (alertThresholds (config job)) result)]))
   \<and> (\<not> notifications_on job \<longrightarrow> checkAlerts job result = [])"
proof (intro conjI impI)
  assume a: "notifications_on job
      \<and> configured (alertThresholds (config job)) th_responseTime \<noteq> Some 0
      \<and> configured (alertThresholds (config job)) sslExpiryDays \<noteq> Some 0
      \<and> configured (alertThresholds (config job)) domainExpiryDays \<noteq> Some 0
      \<and> ssl_days result \<noteq> Some 0
      \<and> dom_daysUntilExpiry (domainExpiration result) \<noteq> Some 0"
  then have "alerts_of (config job) result = spec_alerts (alertThresholds (config job)) result"
    by (simp add: alerts_of_spec)
  with a show "checkAlerts job result =
      (if spec_alerts (alertThresholds (config job)) result = [] then []
       else [sendAlertEmail job result (spec_alerts (alertThresholds (config job)) result)])"
    by (auto simp: checkAlerts_def notifications_on_def Let_def split: option.splits)
next
  assume "\<not> notifications_on job"
  then show "checkAlerts job result = []"
    by (auto simp: checkAlerts_def notifications_on_def split: option.splits)
qed

text \<open>
  The scenario of the specification: 200 in 150 ms, certificate good for 200 days, domain
  for 10, thresholds 3000 ms, 30 and 30 days: one alert, on the domain.
\<close>

lemma checkAlerts_scenario:
  "spec_alerts (alertThresholds (config (job_of config_alerting))) (report_of world_up None)
       = [''Domain expires in 10 days'']
   \<and> checkAlerts (job_of config_alerting) (report_of world_up None)
       = [sendAlertEmail (job_of config_alerting) (report_of world_up None)
            [''Domain expires in 10 days'']]"
  by code_simp

text \<open>
  C6.  The claim: the evaluation produces the ordered list of the alerts whose rule
  matches, among them the domain day count when it is present and at most the configured
  minimum.  For a job with notifications on and a minimum of 30 days, on the report of a
  domain whose registration has just ended, the day count is present, is 0 and is below
  the minimum: the rules give three alerts, and the mail of the code lists two.  The line
  on the day count is missing, because the condition reads the number 0 as an absent one.
\<close>

theorem checkAlerts_zero_day_count:
  "notifications_on (job_of config_alerting)
   \<and> configured (alertThresholds (config (job_of config_alerting))) domainExpiryDays = Some 30
   \<and> dom_daysUntilExpiry (domainExpiration (report_of world_boundary None)) = Some 0
   \<and> spec_alerts (alertThresholds (config (job_of config_alerting))) (report_of world_boundary None)
       = [''SSL certificate expires in 30 days'', ''Domain expires in 0 days'',
          ''Domain has expired'']
   \<and> checkAlerts (job_of config_alerting) (report_of world_boundary None)
       = [sendAlertEmail (job_of config_alerting) (report_of world_boundary None)
            [''SSL certificate expires in 30 days'', ''Domain has expired'']]"
  by code_simp


section \<open>Registering a job twice\<close>






section \<open>Executions of one job that overlap\<close>

text \<open>
  C7, as the code has it.  No trigger looks at the executions in flight.  The callback of
  a cron task whose job is active starts an execution, and so does \<^verbatim>\<open>runJobNow\<close> on an
  active job, whatever is running, and changes nothing else.  Every execution whose probe
  run returns a report leaves the executions in flight, stores the time and the report in
  its job as \<^verbatim>\<open>lastRun\<close> and \<^verbatim>\<open>lastResult\<close>, and runs its own alert check, whose mail
  is added to those sent.
\<close>

theorem triggers_start_executions:
  "(k < length (tasks s) \<and> isActive (heap s ! snd (tasks s ! k)) \<longrightarrow>
      step valid s (Tick k) = s \<lparr> running := running s @ [snd (tasks s ! k)] \<rparr>)
   \<and> (\<forall>ref. map_of (jobs s) i = Some ref \<and> isActive (heap s ! ref) \<longrightarrow>
      step valid s (RunJobNow i) = s \<lparr> running := running s @ [ref] \<rparr>)
   \<and> (\<forall>result. n < length (running s)
        \<and> monitorWebsite w (cfg_url (config (heap s ! (running s ! n))))
                           (cfg_keyword (config (heap s ! (running s ! n)))) = Inr result \<longrightarrow>
      step valid s (Settle n w now)
        = s \<lparr> running := take n (running s) @ drop (Suc n) (running s),
              heap := (heap s)[running s ! n :=
                         (heap s ! (running s ! n)) \<lparr> lastRun := Some now, lastResult := Some result \<rparr>],
              mails := mails s @ checkAlerts ((heap s ! (running s ! n))
                                   \<lparr> lastRun := Some now, lastResult := Some result \<rparr>) result \<rparr>
      \<and> (running s ! n < length (heap s) \<longrightarrow>
           lastRun (heap (step valid s (Settle n w now)) ! (running s ! n)) = Some now
           \<and> lastResult (heap (step valid s (Settle n w now)) ! (running s ! n)) = Some result))"
  by (auto simp: tick_def runJobNow_start_def start_run_def finish_run_def Let_def)

theorem triggers_start_executions_witness:
  "running overlapping = [0]
   \<and> step any_expression overlapping (Tick 0) = overlapping \<lparr> running := [0, 0] \<rparr>
   \<and> step any_expression overlapping (RunJobNow ''job_1'') = overlapping \<lparr> running := [0, 0] \<rparr>
   \<and> step any_expression overlapping (Settle 0 world_offline 1752969600000)
       = overlapping
           \<lparr> running := [],
             heap := [(job_of config_alerting)
                        \<lparr> lastRun := Some 1752969600000,
                          lastResult := Some (report_of world_offline None) \<rparr>],
             mails := checkAlerts ((job_of config_alerting)
                         \<lparr> lastRun := Some 1752969600000,
                           lastResult := Some (report_of world_offline None) \<rparr>)
                         (report_of world_offline None) \<rparr>
   \<and> lastRun (heap (step any_expression overlapping (Settle 0 world_offline 1752969600000)) ! 0)
       = Some 1752969600000
   \<and> lastResult (heap (step any_expression overlapping (Settle 0 world_offline 1752969600000)) ! 0)
       = Some (report_of world_offline None)"
proof -
  have r: "running overlapping = [0]" by code_simp
  have t: "tasks overlapping = [(''*/5 * * * *'', 0)]" by code_simp
  have j: "map_of (jobs overlapping) ''job_1'' = Some 0" by code_simp
  have h: "heap overlapping = [job_of config_alerting]" by code_simp
  have m: "mails overlapping = []" by code_simp
  have a: "isActive (job_of config_alerting)" by (simp add: job_of_def)
  have p: "monitorWebsite world_offline (cfg_url (config (job_of config_alerting)))
             (cfg_keyword (config (job_of config_alerting))) = Inr (report_of world_offline None)"
    by code_simp
  from triggers_start_executions [where k = 0 and s = overlapping and valid = any_expression
      and i = "''job_1''" and n = 0 and w = world_offline and now = 1752969600000]
    r t j h m a p
  show ?thesis by simp
qed

text \<open>
  A cron tick and a call of \<^verbatim>\<open>runJobNow\<close> before the first execution has settled: two
  executions of the job are in flight, and when both have settled two mails are out.
\<close>

theorem overlap_counterexample:
  "in_flight (run_events any_expression (registered config_alerting)
               [Tick 0, RunJobNow ''job_1'']) ''job_1'' = 2
   \<and> length (mails (run_events any_expression (registered config_alerting)
               [Tick 0, RunJobNow ''job_1'', Settle 0 world_offline 1752969600000,
                Settle 0 world_offline 1752969601000])) = 2"
  by code_simp


section \<open>An execution whose probe run throws\<close>

lemma start_then_drop:
  "(start_run ref s) \<lparr> running := take (length (running s)) (running (start_run ref s))
                                   @ drop (Suc (length (running s))) (running (start_run ref s)) \<rparr> = s"
  by (simp add: start_run_def)

lemma runJob_throws:
  assumes "monitorWebsite w (cfg_url (config (heap s ! ref))) (cfg_keyword (config (heap s ! ref))) = Inl e"
  shows "runJob w now ref s = (Inl e, s)"
proof -
  have "running (start_run ref s) ! length (running s) = ref"
    by (simp add: start_run_def)
  moreover have "heap (start_run ref s) = heap s"
    by (simp add: start_run_def)
  ultimately show ?thesis
    using assms start_then_drop [where ref = ref and s = s]
    by (simp add: runJob_def finish_run_def Let_def)
qed

text \<open>
  C10.  When the aggregator throws for the job of an execution, the execution ends with
  that exception and the scheduler is as before it: the job keeps its \<^verbatim>\<open>lastRun\<close> and
  \<^verbatim>\<open>lastResult\<close>, and no alert is evaluated or sent.  This holds for a run nothing
  interleaves with, for \<^verbatim>\<open>runJobNow\<close>, and for an execution that settles among others.
\<close>

theorem runJob_rethrows:
  assumes "monitorWebsite w (cfg_url (config (heap s ! ref))) (cfg_keyword (config (heap s ! ref))) = Inl e"
  shows "runJob w now ref s = (Inl e, s)
     \<and> (map_of (jobs s) i = Some ref \<and> isActive (heap s ! ref) \<longrightarrow>
          runJobNow w now i s = (Some (Inl e), s))
     \<and> (\<forall>k. k < length (running s) \<and> running s ! k = ref \<longrightarrow>
          fst (finish_run w now k s) = Inl e
          \<and> heap (snd (finish_run w now k s)) = heap s
          \<and> mails (snd (finish_run w now k s)) = mails s)"
  using assms runJob_throws [OF assms, of now]
  by (auto simp: runJobNow_def finish_run_def Let_def)

theorem runJob_rethrows_witness:
  "monitorWebsite world_down (cfg_url (config (heap (registered config_no_url) ! 0)))
      (cfg_keyword (config (heap (registered config_no_url) ! 0))) = Inl (Error ''Invalid URL'')
   \<and> runJob world_down 1752969600000 0 (registered config_no_url)
       = (Inl (Error ''Invalid URL''), registered config_no_url)
   \<and> runJobNow world_down 1752969600000 ''job_1'' (registered config_no_url)
       = (Some (Inl (Error ''Invalid URL'')), registered config_no_url)
   \<and> lastRun (heap (registered config_no_url) ! 0) = None
   \<and> mails (registered config_no_url) = []"
proof -
  have h: "monitorWebsite world_down (cfg_url (config (heap (registered config_no_url) ! 0)))
      (cfg_keyword (config (heap (registered config_no_url) ! 0))) = Inl (Error ''Invalid URL'')"
    by code_simp
  have j: "map_of (jobs (registered config_no_url)) ''job_1'' = Some 0" by code_simp
  have a: "isActive (heap (registered config_no_url) ! 0)" by code_simp
  have l: "lastRun (heap (registered config_no_url) ! 0) = None" by code_simp
  have m: "mails (registered config_no_url) = []" by code_simp
  from runJob_rethrows [OF h, where now = 1752969600000 and i = "''job_1''"] h j a l m
  show ?thesis by simp
qed

end
